theory Spec2Isabelle
  imports Main "HOL-Library.Word"
begin

unbundle bit_operations_syntax

section \<open>Data types of the 8080 core\<close>

text \<open>
  \<^verbatim>\<open>typedef unsigned char BYTE; typedef unsigned int WORD;\<close> The target is an Arduino
  Nano (AVR), where \<^verbatim>\<open>unsigned int\<close> has 16 bits and \<^verbatim>\<open>unsigned long\<close> 32.
\<close>

type_synonym byte = "8 word"
type_synonym word16 = "16 word"
type_synonym ulong = "32 word"

text \<open>
  Modelled from the spec: the flag masks and shifts are declared in simcore.h, which is
  not among the sources. The spec gives the bit positions: C bit 0, N bit 1, P bit 2,
  X bit 3, H bit 4, Y bit 5, Z bit 6, S bit 7.
\<close>

definition C_FLAG :: byte where "C_FLAG = 0x01"
definition N_FLAG :: byte where "N_FLAG = 0x02"
definition P_FLAG :: byte where "P_FLAG = 0x04"
definition X_FLAG :: byte where "X_FLAG = 0x08"
definition H_FLAG :: byte where "H_FLAG = 0x10"
definition Y_FLAG :: byte where "Y_FLAG = 0x20"
definition Z_FLAG :: byte where "Z_FLAG = 0x40"
definition S_FLAG :: byte where "S_FLAG = 0x80"
definition C_SHIFT :: nat where "C_SHIFT = 0"
definition H_SHIFT :: nat where "H_SHIFT = 4"

text \<open>\<^verbatim>\<open>#define SZP_FLAGS (S_FLAG | Z_FLAG | P_FLAG)\<close>\<close>

definition SZP_FLAGS :: byte where "SZP_FLAGS = S_FLAG OR Z_FLAG OR P_FLAG"

text \<open>
  Modelled from the spec: \<^verbatim>\<open>CPUState\<close> is declared in simcore.h; the spec names its
  three values.
\<close>

datatype CPUState = Running | Halted | Interrupted

text \<open>
  \<^verbatim>\<open>struct cpu_state\<close>, with the field names of the source. The globals
  \<^verbatim>\<open>State\<close> and \<^verbatim>\<open>tstates\<close>, the memory and the I/O device extend it to the whole
  machine. \<^verbatim>\<open>cpu_8080\<close> copies the registers into locals on entry and back on exit;
  the model works on the fields directly.
\<close>

record cpu_state =
  A :: byte
  B :: byte
  C :: byte
  D :: byte
  E :: byte
  H :: byte
  L :: byte
  F :: byte
  IFF :: byte
  PC8 :: word16
  SP8 :: word16

record 'io machine = cpu_state +
  State :: CPUState
  tstates :: ulong
  mem :: "word16 \<Rightarrow> byte"
  iodev :: 'io

section \<open>The sign, zero and parity table\<close>

definition szp_table :: "byte list" where
  "szp_table = [
    Z_FLAG OR P_FLAG, 0, 0, P_FLAG, 0, P_FLAG, P_FLAG, 0,
    0, P_FLAG, P_FLAG, 0, P_FLAG, 0, 0, P_FLAG,
    0, P_FLAG, P_FLAG, 0, P_FLAG, 0, 0, P_FLAG,
    P_FLAG, 0, 0, P_FLAG, 0, P_FLAG, P_FLAG, 0,
    0, P_FLAG, P_FLAG, 0, P_FLAG, 0, 0, P_FLAG,
    P_FLAG, 0, 0, P_FLAG, 0, P_FLAG, P_FLAG, 0,
    P_FLAG, 0, 0, P_FLAG, 0, P_FLAG, P_FLAG, 0,
    0, P_FLAG, P_FLAG, 0, P_FLAG, 0, 0, P_FLAG,
    0, P_FLAG, P_FLAG, 0, P_FLAG, 0, 0, P_FLAG,
    P_FLAG, 0, 0, P_FLAG, 0, P_FLAG, P_FLAG, 0,
    P_FLAG, 0, 0, P_FLAG, 0, P_FLAG, P_FLAG, 0,
    0, P_FLAG, P_FLAG, 0, P_FLAG, 0, 0, P_FLAG,
    P_FLAG, 0, 0, P_FLAG, 0, P_FLAG, P_FLAG, 0,
    0, P_FLAG, P_FLAG, 0, P_FLAG, 0, 0, P_FLAG,
    0, P_FLAG, P_FLAG, 0, P_FLAG, 0, 0, P_FLAG,
    P_FLAG, 0, 0, P_FLAG, 0, P_FLAG, P_FLAG, 0,
    S_FLAG, S_FLAG OR P_FLAG, S_FLAG OR P_FLAG, S_FLAG, S_FLAG OR P_FLAG, S_FLAG, S_FLAG, S_FLAG OR P_FLAG,
    S_FLAG OR P_FLAG, S_FLAG, S_FLAG, S_FLAG OR P_FLAG, S_FLAG, S_FLAG OR P_FLAG, S_FLAG OR P_FLAG, S_FLAG,
    S_FLAG OR P_FLAG, S_FLAG, S_FLAG, S_FLAG OR P_FLAG, S_FLAG, S_FLAG OR P_FLAG, S_FLAG OR P_FLAG, S_FLAG,
    S_FLAG, S_FLAG OR P_FLAG, S_FLAG OR P_FLAG, S_FLAG, S_FLAG OR P_FLAG, S_FLAG, S_FLAG, S_FLAG OR P_FLAG,
    S_FLAG OR P_FLAG, S_FLAG, S_FLAG, S_FLAG OR P_FLAG, S_FLAG, S_FLAG OR P_FLAG, S_FLAG OR P_FLAG, S_FLAG,
    S_FLAG, S_FLAG OR P_FLAG, S_FLAG OR P_FLAG, S_FLAG, S_FLAG OR P_FLAG, S_FLAG, S_FLAG, S_FLAG OR P_FLAG,
    S_FLAG, S_FLAG OR P_FLAG, S_FLAG OR P_FLAG, S_FLAG, S_FLAG OR P_FLAG, S_FLAG, S_FLAG, S_FLAG OR P_FLAG,
    S_FLAG OR P_FLAG, S_FLAG, S_FLAG, S_FLAG OR P_FLAG, S_FLAG, S_FLAG OR P_FLAG, S_FLAG OR P_FLAG, S_FLAG,
    S_FLAG OR P_FLAG, S_FLAG, S_FLAG, S_FLAG OR P_FLAG, S_FLAG, S_FLAG OR P_FLAG, S_FLAG OR P_FLAG, S_FLAG,
    S_FLAG, S_FLAG OR P_FLAG, S_FLAG OR P_FLAG, S_FLAG, S_FLAG OR P_FLAG, S_FLAG, S_FLAG, S_FLAG OR P_FLAG,
    S_FLAG, S_FLAG OR P_FLAG, S_FLAG OR P_FLAG, S_FLAG, S_FLAG OR P_FLAG, S_FLAG, S_FLAG, S_FLAG OR P_FLAG,
    S_FLAG OR P_FLAG, S_FLAG, S_FLAG, S_FLAG OR P_FLAG, S_FLAG, S_FLAG OR P_FLAG, S_FLAG OR P_FLAG, S_FLAG,
    S_FLAG, S_FLAG OR P_FLAG, S_FLAG OR P_FLAG, S_FLAG, S_FLAG OR P_FLAG, S_FLAG, S_FLAG, S_FLAG OR P_FLAG,
    S_FLAG OR P_FLAG, S_FLAG, S_FLAG, S_FLAG OR P_FLAG, S_FLAG, S_FLAG OR P_FLAG, S_FLAG OR P_FLAG, S_FLAG,
    S_FLAG OR P_FLAG, S_FLAG, S_FLAG, S_FLAG OR P_FLAG, S_FLAG, S_FLAG OR P_FLAG, S_FLAG OR P_FLAG, S_FLAG,
    S_FLAG, S_FLAG OR P_FLAG, S_FLAG OR P_FLAG, S_FLAG, S_FLAG OR P_FLAG, S_FLAG, S_FLAG, S_FLAG OR P_FLAG
  ]"

text \<open>\<^verbatim>\<open>szp_flags[v]\<close>: the index is a \<^verbatim>\<open>BYTE\<close>, so it is always inside the table.\<close>

definition szp_flags :: "byte \<Rightarrow> byte" where
  "szp_flags v = szp_table ! unat v"

section \<open>Memory and I/O\<close>

text \<open>
  Modelled from the spec: \<^verbatim>\<open>memrdr\<close> and \<^verbatim>\<open>memwrt\<close> come from memsim.h, which is
  not among the sources. The spec's memory port is a mapping from 16-bit addresses to
  bytes, every address readable and writable, reads without effect on the CPU.
\<close>

definition memrdr :: "'io machine \<Rightarrow> word16 \<Rightarrow> byte" where
  "memrdr m a = mem m a"

definition memwrt :: "word16 \<Rightarrow> byte \<Rightarrow> 'io machine \<Rightarrow> 'io machine" where
  "memwrt a v m = m\<lparr>mem := (mem m)(a := v)\<rparr>"

text \<open>
  Modelled from the spec: \<^verbatim>\<open>io_in\<close> and \<^verbatim>\<open>io_out\<close> come from iosim.h, which is not
  among the sources. The spec leaves the device open: \<^verbatim>\<open>in(port, port)\<close> returns a
  byte and \<^verbatim>\<open>out(port, port, value)\<close> takes one. Both are parameters here, acting on a
  device state of their own.
\<close>

record 'io iosim =
  io_in :: "'io \<Rightarrow> byte \<Rightarrow> byte \<Rightarrow> byte \<times> 'io"
  io_out :: "'io \<Rightarrow> byte \<Rightarrow> byte \<Rightarrow> byte \<Rightarrow> 'io"

section \<open>Initialisation\<close>

text \<open>
  \<^verbatim>\<open>init_cpu\<close>. The Arduino library's \<^verbatim>\<open>random(max)\<close> is a parameter: it takes the
  generator's state and the bound and returns the number drawn and the next state. The
  \<^verbatim>\<open>long\<close> it returns is truncated by the assignment to a \<^verbatim>\<open>WORD\<close> or
  \<^verbatim>\<open>BYTE\<close> field. The function assigns \<^verbatim>\<open>PC8\<close>, \<^verbatim>\<open>SP8\<close> and the eight registers
  and nothing else.
\<close>

definition init_cpu ::
  "('g \<Rightarrow> int \<Rightarrow> int \<times> 'g) \<Rightarrow> 'g \<Rightarrow> 'a cpu_state_scheme \<Rightarrow> 'a cpu_state_scheme \<times> 'g" where
  "init_cpu random g0 cs =
     (let (sp, g1) = random g0 65535;
          (a, g2) = random g1 255;
          (b, g3) = random g2 255;
          (c, g4) = random g3 255;
          (d, g5) = random g4 255;
          (e, g6) = random g5 255;
          (h, g7) = random g6 255;
          (l, g8) = random g7 255;
          (f, g9) = random g8 255
      in (cs\<lparr>PC8 := 0, SP8 := word_of_int sp, A := word_of_int a, B := word_of_int b,
              C := word_of_int c, D := word_of_int d, E := word_of_int e,
              H := word_of_int h, L := word_of_int l, F := word_of_int f\<rparr>, g9))"

text \<open>
  The globals before \<^verbatim>\<open>loop\<close> runs: \<^verbatim>\<open>CPUState State = Running\<close>,
  \<^verbatim>\<open>unsigned long tstates = 0\<close>, and the global \<^verbatim>\<open>struct cpu_state\<close>, which has
  static storage and no initialiser, so all its fields are zero.
\<close>

definition power_on :: "(word16 \<Rightarrow> byte) \<Rightarrow> 'io \<Rightarrow> 'io machine" where
  "power_on ram dev0 =
     \<lparr>A = 0, B = 0, C = 0, D = 0, E = 0, H = 0, L = 0, F = 0, IFF = 0, PC8 = 0, SP8 = 0,
      State = Running, tstates = 0, mem = ram, iodev = dev0\<rparr>"

section \<open>The execution engine\<close>

text \<open>The expressions \<^verbatim>\<open>(hi << 8) | lo\<close>, \<^verbatim>\<open>addr >> 8\<close> and \<^verbatim>\<open>addr & 0xff\<close>.\<close>

definition rp :: "byte \<Rightarrow> byte \<Rightarrow> word16" where
  "rp hi lo = push_bit 8 (ucast hi) OR ucast lo"

definition hi8 :: "word16 \<Rightarrow> byte" where
  "hi8 w = ucast (drop_bit 8 w)"

definition lo8 :: "word16 \<Rightarrow> byte" where
  "lo8 w = ucast (w AND 0xff)"

text \<open>The 16-bit operand: \<^verbatim>\<open>addr = memrdr(PC8++); addr |= memrdr(PC8++) << 8;\<close>\<close>

definition imm16 :: "'io machine \<Rightarrow> word16" where
  "imm16 m = rp (memrdr m (PC8 m + 1)) (memrdr m (PC8 m))"

text \<open>An integer expression used as a condition, as in \<^verbatim>\<open>if (F & C_FLAG)\<close>: true when not zero.\<close>

definition nz :: "byte \<Rightarrow> bool" where
  "nz x = (x \<noteq> 0)"

text \<open>\<^verbatim>\<open>tstates += t;\<close> at the end of the loop body.\<close>

definition tick :: "byte \<Rightarrow> 'io machine \<Rightarrow> 'io machine" where
  "tick t m = m\<lparr>tstates := tstates m + ucast t\<rparr>"

text \<open>
  The shared tails of the switch, one function per label. Each takes the locals the
  label reads (\<^verbatim>\<open>P\<close>, \<^verbatim>\<open>res\<close>, \<^verbatim>\<open>cout\<close>, \<^verbatim>\<open>addr\<close>, and \<^verbatim>\<open>t\<close> as counted so
  far) and ends with the instruction's T-states added. A condition \<^verbatim>\<open>res\<close> that the
  source keeps in a \<^verbatim>\<open>BYTE\<close> and tests with \<^verbatim>\<open>if (res)\<close> is a \<open>bool\<close>.
\<close>

definition finish_inr :: "byte \<Rightarrow> byte \<Rightarrow> byte \<Rightarrow> 'io machine \<Rightarrow> 'io machine" where
  "finish_inr p res t m =
     (let cout = (p AND 1) OR ((p OR 1) AND NOT res)
      in tick (t + 1)
           (m\<lparr>F := (F m AND C_FLAG) OR push_bit H_SHIFT (drop_bit 3 cout AND 1) OR
                     szp_flags res\<rparr>))"

definition finish_dcr :: "byte \<Rightarrow> byte \<Rightarrow> byte \<Rightarrow> 'io machine \<Rightarrow> 'io machine" where
  "finish_dcr p res t m =
     (let cout = (NOT p AND 1) OR ((NOT p OR 1) AND res);
          f = (F m AND C_FLAG) OR push_bit H_SHIFT (drop_bit 3 cout AND 1) OR szp_flags res
      in tick (t + 1) (m\<lparr>F := f XOR H_FLAG\<rparr>))"

definition finish_dad :: "byte \<Rightarrow> word16 \<Rightarrow> byte \<Rightarrow> 'io machine \<Rightarrow> 'io machine" where
  "finish_dad cout addr t m =
     tick (t + 6)
       (m\<lparr>F := (F m AND NOT C_FLAG) OR push_bit C_SHIFT (drop_bit 7 cout AND 1),
          H := hi8 addr, L := lo8 addr\<rparr>)"

definition finish_add :: "byte \<Rightarrow> byte \<Rightarrow> 'io machine \<Rightarrow> 'io machine" where
  "finish_add p t m =
     (let res = A m + p;
          cout = (A m AND p) OR ((A m OR p) AND NOT res)
      in tick t
           (m\<lparr>F := push_bit C_SHIFT (drop_bit 7 cout AND 1) OR
                     push_bit H_SHIFT (drop_bit 3 cout AND 1) OR szp_flags res,
              A := res\<rparr>))"

definition finish_adc :: "byte \<Rightarrow> byte \<Rightarrow> 'io machine \<Rightarrow> 'io machine" where
  "finish_adc p t m =
     (let res = A m + p + (drop_bit C_SHIFT (F m) AND 1);
          cout = (A m AND p) OR ((A m OR p) AND NOT res)
      in tick t
           (m\<lparr>F := push_bit C_SHIFT (drop_bit 7 cout AND 1) OR
                     push_bit H_SHIFT (drop_bit 3 cout AND 1) OR szp_flags res,
              A := res\<rparr>))"

definition finish_sub :: "byte \<Rightarrow> byte \<Rightarrow> 'io machine \<Rightarrow> 'io machine" where
  "finish_sub p t m =
     (let res = A m - p;
          cout = (NOT (A m) AND p) OR ((NOT (A m) OR p) AND res);
          f = push_bit C_SHIFT (drop_bit 7 cout AND 1) OR
              push_bit H_SHIFT (drop_bit 3 cout AND 1) OR szp_flags res
      in tick t (m\<lparr>F := f XOR H_FLAG, A := res\<rparr>))"

definition finish_sbb :: "byte \<Rightarrow> byte \<Rightarrow> 'io machine \<Rightarrow> 'io machine" where
  "finish_sbb p t m =
     (let res = A m - p - (drop_bit C_SHIFT (F m) AND 1);
          cout = (NOT (A m) AND p) OR ((NOT (A m) OR p) AND res);
          f = push_bit C_SHIFT (drop_bit 7 cout AND 1) OR
              push_bit H_SHIFT (drop_bit 3 cout AND 1) OR szp_flags res
      in tick t (m\<lparr>F := f XOR H_FLAG, A := res\<rparr>))"

definition finish_ana :: "byte \<Rightarrow> byte \<Rightarrow> 'io machine \<Rightarrow> 'io machine" where
  "finish_ana p t m =
     (let res = A m AND p
      in tick t
           (m\<lparr>F := push_bit H_SHIFT (drop_bit 3 (A m OR p) AND 1) OR szp_flags res,
              A := res\<rparr>))"

definition finish_cmp :: "byte \<Rightarrow> byte \<Rightarrow> 'io machine \<Rightarrow> 'io machine" where
  "finish_cmp p t m =
     (let res = A m - p;
          cout = (NOT (A m) AND p) OR ((NOT (A m) OR p) AND res);
          f = push_bit C_SHIFT (drop_bit 7 cout AND 1) OR
              push_bit H_SHIFT (drop_bit 3 cout AND 1) OR szp_flags res
      in tick t (m\<lparr>F := f XOR H_FLAG\<rparr>))"

definition finish_ret :: "byte \<Rightarrow> 'io machine \<Rightarrow> 'io machine" where
  "finish_ret t m =
     (let addr = rp (memrdr m (SP8 m + 1)) (memrdr m (SP8 m))
      in tick (t + 6) (m\<lparr>SP8 := SP8 m + 2, PC8 := addr\<rparr>))"

definition finish_retc :: "bool \<Rightarrow> byte \<Rightarrow> 'io machine \<Rightarrow> 'io machine" where
  "finish_retc res t m = (if res then finish_ret (t + 1) m else tick (t + 1) m)"

definition finish_jmpc :: "bool \<Rightarrow> byte \<Rightarrow> 'io machine \<Rightarrow> 'io machine" where
  "finish_jmpc res t m =
     (let addr = imm16 m;
          m1 = m\<lparr>PC8 := PC8 m + 2\<rparr>
      in tick (t + 6) (if res then m1\<lparr>PC8 := addr\<rparr> else m1))"

definition finish_call :: "word16 \<Rightarrow> byte \<Rightarrow> 'io machine \<Rightarrow> 'io machine" where
  "finish_call addr t m =
     (let m1 = memwrt (SP8 m - 1) (hi8 (PC8 m)) (m\<lparr>SP8 := SP8 m - 1\<rparr>);
          m2 = memwrt (SP8 m1 - 1) (ucast (PC8 m1)) (m1\<lparr>SP8 := SP8 m1 - 1\<rparr>)
      in tick (t + 6) (m2\<lparr>PC8 := addr\<rparr>))"

definition finish_callc :: "bool \<Rightarrow> byte \<Rightarrow> 'io machine \<Rightarrow> 'io machine" where
  "finish_callc res t m =
     (let addr = imm16 m;
          m1 = m\<lparr>PC8 := PC8 m + 2\<rparr>
      in if res then finish_call addr (t + 7) m1 else tick (t + 7) m1)"

text \<open>
  The body of the \<^verbatim>\<open>switch\<close>: \<^verbatim>\<open>exec dev op m\<close> is the arm for the opcode
  \<^verbatim>\<open>op\<close>, run on the machine \<^verbatim>\<open>m\<close> whose \<^verbatim>\<open>PC8\<close> is already past the opcode,
  followed by \<^verbatim>\<open>tstates += t\<close>. The arms stand in the order of the source. The
  \<^verbatim>\<open>default\<close> arm sets \<^verbatim>\<open>t = 0\<close>.
\<close>

definition exec :: "'io iosim \<Rightarrow> byte \<Rightarrow> 'io machine \<Rightarrow> 'io machine" where
  "exec dev op m =
     (if op = 0x00 \<or> op = 0x08 \<or> op = 0x10 \<or> op = 0x18 \<or> op = 0x20 \<or>
          op = 0x28 \<or> op = 0x30 \<or> op = 0x38 then
       \<comment> \<open>NOP and the NOP* aliases\<close>
       tick 4 m
     else if op = 0x7f \<or> op = 0x40 \<or> op = 0x49 \<or> op = 0x52 \<or>
          op = 0x5b \<or> op = 0x64 \<or> op = 0x6d then
       \<comment> \<open>MOV r,r with the same register\<close>
       tick (4 + 1) m
     else if op = 0x01 then \<comment> \<open>LXI B,nn\<close>
       tick (4 + 6) (m\<lparr>C := memrdr m (PC8 m), B := memrdr m (PC8 m + 1),
         PC8 := PC8 m + 2\<rparr>)
     else if op = 0x02 then \<comment> \<open>STAX B\<close>
       tick (4 + 3) (memwrt (rp (B m) (C m)) (A m) m)
     else if op = 0x03 then \<comment> \<open>INX B\<close>
       (let addr = rp (B m) (C m) + 1
        in tick (4 + 1) (m\<lparr>B := hi8 addr, C := lo8 addr\<rparr>))
     else if op = 0x04 then \<comment> \<open>INR B\<close>
       finish_inr (B m) (B m + 1) 4 (m\<lparr>B := B m + 1\<rparr>)
     else if op = 0x05 then \<comment> \<open>DCR B\<close>
       finish_dcr (B m) (B m - 1) 4 (m\<lparr>B := B m - 1\<rparr>)
     else if op = 0x06 then \<comment> \<open>MVI B,n\<close>
       tick (4 + 3) (m\<lparr>B := memrdr m (PC8 m), PC8 := PC8 m + 1\<rparr>)
     else if op = 0x07 then \<comment> \<open>RLC\<close>
       (let res = drop_bit 7 (A m AND 128) AND 1
        in tick 4 (m\<lparr>F := (F m AND NOT C_FLAG) OR push_bit C_SHIFT res,
             A := push_bit 1 (A m) OR res\<rparr>))
     else if op = 0x09 then \<comment> \<open>DAD B\<close>
       (let addr = rp (H m) (L m) + rp (B m) (C m);
            cout = (H m AND B m) OR ((H m OR B m) AND NOT (hi8 addr))
        in finish_dad cout addr 4 m)
     else if op = 0x0a then \<comment> \<open>LDAX B\<close>
       tick (4 + 3) (m\<lparr>A := memrdr m (rp (B m) (C m))\<rparr>)
     else if op = 0x0b then \<comment> \<open>DCX B\<close>
       (let addr = rp (B m) (C m) - 1
        in tick (4 + 1) (m\<lparr>B := hi8 addr, C := lo8 addr\<rparr>))
     else if op = 0x0c then \<comment> \<open>INR C\<close>
       finish_inr (C m) (C m + 1) 4 (m\<lparr>C := C m + 1\<rparr>)
     else if op = 0x0d then \<comment> \<open>DCR C\<close>
       finish_dcr (C m) (C m - 1) 4 (m\<lparr>C := C m - 1\<rparr>)
     else if op = 0x0e then \<comment> \<open>MVI C,n\<close>
       tick (4 + 3) (m\<lparr>C := memrdr m (PC8 m), PC8 := PC8 m + 1\<rparr>)
     else if op = 0x0f then \<comment> \<open>RRC\<close>
       (let res = A m AND 1
        in tick 4 (m\<lparr>F := (F m AND NOT C_FLAG) OR push_bit C_SHIFT res,
             A := drop_bit 1 (A m) OR push_bit 7 res\<rparr>))
     else if op = 0x11 then \<comment> \<open>LXI D,nn\<close>
       tick (4 + 6) (m\<lparr>E := memrdr m (PC8 m), D := memrdr m (PC8 m + 1),
         PC8 := PC8 m + 2\<rparr>)
     else if op = 0x12 then \<comment> \<open>STAX D\<close>
       tick (4 + 3) (memwrt (rp (D m) (E m)) (A m) m)
     else if op = 0x13 then \<comment> \<open>INX D\<close>
       (let addr = rp (D m) (E m) + 1
        in tick (4 + 1) (m\<lparr>D := hi8 addr, E := lo8 addr\<rparr>))
     else if op = 0x14 then \<comment> \<open>INR D\<close>
       finish_inr (D m) (D m + 1) 4 (m\<lparr>D := D m + 1\<rparr>)
     else if op = 0x15 then \<comment> \<open>DCR D\<close>
       finish_dcr (D m) (D m - 1) 4 (m\<lparr>D := D m - 1\<rparr>)
     else if op = 0x16 then \<comment> \<open>MVI D,n\<close>
       tick (4 + 3) (m\<lparr>D := memrdr m (PC8 m), PC8 := PC8 m + 1\<rparr>)
     else if op = 0x17 then \<comment> \<open>RAL\<close>
       (let res = drop_bit C_SHIFT (F m) AND 1
        in tick 4 (m\<lparr>F := (F m AND NOT C_FLAG) OR
             push_bit C_SHIFT (drop_bit 7 (A m AND 128) AND 1),
             A := push_bit 1 (A m) OR res\<rparr>))
     else if op = 0x19 then \<comment> \<open>DAD D\<close>
       (let addr = rp (H m) (L m) + rp (D m) (E m);
            cout = (H m AND D m) OR ((H m OR D m) AND NOT (hi8 addr))
        in finish_dad cout addr 4 m)
     else if op = 0x1a then \<comment> \<open>LDAX D\<close>
       tick (4 + 3) (m\<lparr>A := memrdr m (rp (D m) (E m))\<rparr>)
     else if op = 0x1b then \<comment> \<open>DCX D\<close>
       (let addr = rp (D m) (E m) - 1
        in tick (4 + 1) (m\<lparr>D := hi8 addr, E := lo8 addr\<rparr>))
     else if op = 0x1c then \<comment> \<open>INR E\<close>
       finish_inr (E m) (E m + 1) 4 (m\<lparr>E := E m + 1\<rparr>)
     else if op = 0x1d then \<comment> \<open>DCR E\<close>
       finish_dcr (E m) (E m - 1) 4 (m\<lparr>E := E m - 1\<rparr>)
     else if op = 0x1e then \<comment> \<open>MVI E,n\<close>
       tick (4 + 3) (m\<lparr>E := memrdr m (PC8 m), PC8 := PC8 m + 1\<rparr>)
     else if op = 0x1f then \<comment> \<open>RAR\<close>
       (let res = drop_bit C_SHIFT (F m) AND 1
        in tick 4 (m\<lparr>F := (F m AND NOT C_FLAG) OR push_bit C_SHIFT (A m AND 1),
             A := drop_bit 1 (A m) OR push_bit 7 res\<rparr>))
     else if op = 0x21 then \<comment> \<open>LXI H,nn\<close>
       tick (4 + 6) (m\<lparr>L := memrdr m (PC8 m), H := memrdr m (PC8 m + 1),
         PC8 := PC8 m + 2\<rparr>)
     else if op = 0x22 then \<comment> \<open>SHLD nn\<close>
       (let addr = imm16 m
        in tick (4 + 12) (memwrt (addr + 1) (H m) (memwrt addr (L m)
             (m\<lparr>PC8 := PC8 m + 2\<rparr>))))
     else if op = 0x23 then \<comment> \<open>INX H\<close>
       (let addr = rp (H m) (L m) + 1
        in tick (4 + 1) (m\<lparr>H := hi8 addr, L := lo8 addr\<rparr>))
     else if op = 0x24 then \<comment> \<open>INR H\<close>
       finish_inr (H m) (H m + 1) 4 (m\<lparr>H := H m + 1\<rparr>)
     else if op = 0x25 then \<comment> \<open>DCR H\<close>
       finish_dcr (H m) (H m - 1) 4 (m\<lparr>H := H m - 1\<rparr>)
     else if op = 0x26 then \<comment> \<open>MVI H,n\<close>
       tick (4 + 3) (m\<lparr>H := memrdr m (PC8 m), PC8 := PC8 m + 1\<rparr>)
     else if op = 0x27 then \<comment> \<open>DAA\<close>
       (let p0 = (if 9 < A m AND 0xf \<or> nz (F m AND H_FLAG) then 0x06 else 0);
            p = (if 0x99 < A m \<or> nz (F m AND C_FLAG) then p0 OR 0x60 else p0);
            res = A m + p;
            cout = (A m AND p) OR ((A m OR p) AND NOT res)
        in tick 4 (m\<lparr>F := push_bit C_SHIFT (of_bool (0x99 < A m)) OR (F m AND C_FLAG) OR
             push_bit H_SHIFT (drop_bit 3 cout AND 1) OR szp_flags res, A := res\<rparr>))
     else if op = 0x29 then \<comment> \<open>DAD H\<close>
       (let addr = push_bit 1 (rp (H m) (L m));
            cout = H m OR (H m AND NOT (hi8 addr))
        in finish_dad cout addr 4 m)
     else if op = 0x2a then \<comment> \<open>LHLD nn\<close>
       (let addr = imm16 m
        in tick (4 + 12) (m\<lparr>L := memrdr m addr, H := memrdr m (addr + 1),
             PC8 := PC8 m + 2\<rparr>))
     else if op = 0x2b then \<comment> \<open>DCX H\<close>
       (let addr = rp (H m) (L m) - 1
        in tick (4 + 1) (m\<lparr>H := hi8 addr, L := lo8 addr\<rparr>))
     else if op = 0x2c then \<comment> \<open>INR L\<close>
       finish_inr (L m) (L m + 1) 4 (m\<lparr>L := L m + 1\<rparr>)
     else if op = 0x2d then \<comment> \<open>DCR L\<close>
       finish_dcr (L m) (L m - 1) 4 (m\<lparr>L := L m - 1\<rparr>)
     else if op = 0x2e then \<comment> \<open>MVI L,n\<close>
       tick (4 + 3) (m\<lparr>L := memrdr m (PC8 m), PC8 := PC8 m + 1\<rparr>)
     else if op = 0x2f then \<comment> \<open>CMA\<close>
       tick 4 (m\<lparr>A := NOT (A m)\<rparr>)
     else if op = 0x31 then \<comment> \<open>LXI SP,nn\<close>
       tick (4 + 6) (m\<lparr>SP8 := imm16 m, PC8 := PC8 m + 2\<rparr>)
     else if op = 0x32 then \<comment> \<open>STA nn\<close>
       (let addr = imm16 m
        in tick (4 + 9) (memwrt addr (A m) (m\<lparr>PC8 := PC8 m + 2\<rparr>)))
     else if op = 0x33 then \<comment> \<open>INX SP\<close>
       tick (4 + 1) (m\<lparr>SP8 := SP8 m + 1\<rparr>)
     else if op = 0x34 then \<comment> \<open>INR M\<close>
       (let addr = rp (H m) (L m);
            p = memrdr m addr;
            res = p + 1
        in finish_inr p res (4 + 5) (memwrt addr res m))
     else if op = 0x35 then \<comment> \<open>DCR M\<close>
       (let addr = rp (H m) (L m);
            p = memrdr m addr;
            res = p - 1
        in finish_dcr p res (4 + 5) (memwrt addr res m))
     else if op = 0x36 then \<comment> \<open>MVI M,n\<close>
       tick (4 + 6) (memwrt (rp (H m) (L m)) (memrdr m (PC8 m))
         (m\<lparr>PC8 := PC8 m + 1\<rparr>))
     else if op = 0x37 then \<comment> \<open>STC\<close>
       tick 4 (m\<lparr>F := F m OR C_FLAG\<rparr>)
     else if op = 0x39 then \<comment> \<open>DAD SP\<close>
       (let addr = rp (H m) (L m) + SP8 m;
            cout = (H m AND hi8 (SP8 m)) OR ((H m OR hi8 (SP8 m)) AND NOT (hi8 addr))
        in finish_dad cout addr 4 m)
     else if op = 0x3a then \<comment> \<open>LDA nn\<close>
       (let addr = imm16 m
        in tick (4 + 9) (m\<lparr>A := memrdr m addr, PC8 := PC8 m + 2\<rparr>))
     else if op = 0x3b then \<comment> \<open>DCX SP\<close>
       tick (4 + 1) (m\<lparr>SP8 := SP8 m - 1\<rparr>)
     else if op = 0x3c then \<comment> \<open>INR A\<close>
       finish_inr (A m) (A m + 1) 4 (m\<lparr>A := A m + 1\<rparr>)
     else if op = 0x3d then \<comment> \<open>DCR A\<close>
       finish_dcr (A m) (A m - 1) 4 (m\<lparr>A := A m - 1\<rparr>)
     else if op = 0x3e then \<comment> \<open>MVI A,n\<close>
       tick (4 + 3) (m\<lparr>A := memrdr m (PC8 m), PC8 := PC8 m + 1\<rparr>)
     else if op = 0x3f then \<comment> \<open>CMC\<close>
       tick 4 (m\<lparr>F := F m XOR C_FLAG\<rparr>)
     else if op = 0x41 then \<comment> \<open>MOV B,C\<close>
       tick (4 + 1) (m\<lparr>B := C m\<rparr>)
     else if op = 0x42 then \<comment> \<open>MOV B,D\<close>
       tick (4 + 1) (m\<lparr>B := D m\<rparr>)
     else if op = 0x43 then \<comment> \<open>MOV B,E\<close>
       tick (4 + 1) (m\<lparr>B := E m\<rparr>)
     else if op = 0x44 then \<comment> \<open>MOV B,H\<close>
       tick (4 + 1) (m\<lparr>B := H m\<rparr>)
     else if op = 0x45 then \<comment> \<open>MOV B,L\<close>
       tick (4 + 1) (m\<lparr>B := L m\<rparr>)
     else if op = 0x46 then \<comment> \<open>MOV B,M\<close>
       tick (4 + 3) (m\<lparr>B := memrdr m (rp (H m) (L m))\<rparr>)
     else if op = 0x47 then \<comment> \<open>MOV B,A\<close>
       tick (4 + 1) (m\<lparr>B := A m\<rparr>)
     else if op = 0x48 then \<comment> \<open>MOV C,B\<close>
       tick (4 + 1) (m\<lparr>C := B m\<rparr>)
     else if op = 0x4a then \<comment> \<open>MOV C,D\<close>
       tick (4 + 1) (m\<lparr>C := D m\<rparr>)
     else if op = 0x4b then \<comment> \<open>MOV C,E\<close>
       tick (4 + 1) (m\<lparr>C := E m\<rparr>)
     else if op = 0x4c then \<comment> \<open>MOV C,H\<close>
       tick (4 + 1) (m\<lparr>C := H m\<rparr>)
     else if op = 0x4d then \<comment> \<open>MOV C,L\<close>
       tick (4 + 1) (m\<lparr>C := L m\<rparr>)
     else if op = 0x4e then \<comment> \<open>MOV C,M\<close>
       tick (4 + 3) (m\<lparr>C := memrdr m (rp (H m) (L m))\<rparr>)
     else if op = 0x4f then \<comment> \<open>MOV C,A\<close>
       tick (4 + 1) (m\<lparr>C := A m\<rparr>)
     else if op = 0x50 then \<comment> \<open>MOV D,B\<close>
       tick (4 + 1) (m\<lparr>D := B m\<rparr>)
     else if op = 0x51 then \<comment> \<open>MOV D,C\<close>
       tick (4 + 1) (m\<lparr>D := C m\<rparr>)
     else if op = 0x53 then \<comment> \<open>MOV D,E\<close>
       tick (4 + 1) (m\<lparr>D := E m\<rparr>)
     else if op = 0x54 then \<comment> \<open>MOV D,H\<close>
       tick (4 + 1) (m\<lparr>D := H m\<rparr>)
     else if op = 0x55 then \<comment> \<open>MOV D,L\<close>
       tick (4 + 1) (m\<lparr>D := L m\<rparr>)
     else if op = 0x56 then \<comment> \<open>MOV D,M\<close>
       tick (4 + 3) (m\<lparr>D := memrdr m (rp (H m) (L m))\<rparr>)
     else if op = 0x57 then \<comment> \<open>MOV D,A\<close>
       tick (4 + 1) (m\<lparr>D := A m\<rparr>)
     else if op = 0x58 then \<comment> \<open>MOV E,B\<close>
       tick (4 + 1) (m\<lparr>E := B m\<rparr>)
     else if op = 0x59 then \<comment> \<open>MOV E,C\<close>
       tick (4 + 1) (m\<lparr>E := C m\<rparr>)
     else if op = 0x5a then \<comment> \<open>MOV E,D\<close>
       tick (4 + 1) (m\<lparr>E := D m\<rparr>)
     else if op = 0x5c then \<comment> \<open>MOV E,H\<close>
       tick (4 + 1) (m\<lparr>E := H m\<rparr>)
     else if op = 0x5d then \<comment> \<open>MOV E,L\<close>
       tick (4 + 1) (m\<lparr>E := L m\<rparr>)
     else if op = 0x5e then \<comment> \<open>MOV E,M\<close>
       tick (4 + 3) (m\<lparr>E := memrdr m (rp (H m) (L m))\<rparr>)
     else if op = 0x5f then \<comment> \<open>MOV E,A\<close>
       tick (4 + 1) (m\<lparr>E := A m\<rparr>)
     else if op = 0x60 then \<comment> \<open>MOV H,B\<close>
       tick (4 + 1) (m\<lparr>H := B m\<rparr>)
     else if op = 0x61 then \<comment> \<open>MOV H,C\<close>
       tick (4 + 1) (m\<lparr>H := C m\<rparr>)
     else if op = 0x62 then \<comment> \<open>MOV H,D\<close>
       tick (4 + 1) (m\<lparr>H := D m\<rparr>)
     else if op = 0x63 then \<comment> \<open>MOV H,E\<close>
       tick (4 + 1) (m\<lparr>H := E m\<rparr>)
     else if op = 0x65 then \<comment> \<open>MOV H,L\<close>
       tick (4 + 1) (m\<lparr>H := L m\<rparr>)
     else if op = 0x66 then \<comment> \<open>MOV H,M\<close>
       tick (4 + 3) (m\<lparr>H := memrdr m (rp (H m) (L m))\<rparr>)
     else if op = 0x67 then \<comment> \<open>MOV H,A\<close>
       tick (4 + 1) (m\<lparr>H := A m\<rparr>)
     else if op = 0x68 then \<comment> \<open>MOV L,B\<close>
       tick (4 + 1) (m\<lparr>L := B m\<rparr>)
     else if op = 0x69 then \<comment> \<open>MOV L,C\<close>
       tick (4 + 1) (m\<lparr>L := C m\<rparr>)
     else if op = 0x6a then \<comment> \<open>MOV L,D\<close>
       tick (4 + 1) (m\<lparr>L := D m\<rparr>)
     else if op = 0x6b then \<comment> \<open>MOV L,E\<close>
       tick (4 + 1) (m\<lparr>L := E m\<rparr>)
     else if op = 0x6c then \<comment> \<open>MOV L,H\<close>
       tick (4 + 1) (m\<lparr>L := H m\<rparr>)
     else if op = 0x6e then \<comment> \<open>MOV L,M\<close>
       tick (4 + 3) (m\<lparr>L := memrdr m (rp (H m) (L m))\<rparr>)
     else if op = 0x6f then \<comment> \<open>MOV L,A\<close>
       tick (4 + 1) (m\<lparr>L := A m\<rparr>)
     else if op = 0x70 then \<comment> \<open>MOV M,B\<close>
       tick (4 + 3) (memwrt (rp (H m) (L m)) (B m) m)
     else if op = 0x71 then \<comment> \<open>MOV M,C\<close>
       tick (4 + 3) (memwrt (rp (H m) (L m)) (C m) m)
     else if op = 0x72 then \<comment> \<open>MOV M,D\<close>
       tick (4 + 3) (memwrt (rp (H m) (L m)) (D m) m)
     else if op = 0x73 then \<comment> \<open>MOV M,E\<close>
       tick (4 + 3) (memwrt (rp (H m) (L m)) (E m) m)
     else if op = 0x74 then \<comment> \<open>MOV M,H\<close>
       tick (4 + 3) (memwrt (rp (H m) (L m)) (H m) m)
     else if op = 0x75 then \<comment> \<open>MOV M,L\<close>
       tick (4 + 3) (memwrt (rp (H m) (L m)) (L m) m)
     else if op = 0x76 then \<comment> \<open>HLT\<close>
       tick (4 + 3) (m\<lparr>State := Halted\<rparr>)
     else if op = 0x77 then \<comment> \<open>MOV M,A\<close>
       tick (4 + 3) (memwrt (rp (H m) (L m)) (A m) m)
     else if op = 0x78 then \<comment> \<open>MOV A,B\<close>
       tick (4 + 1) (m\<lparr>A := B m\<rparr>)
     else if op = 0x79 then \<comment> \<open>MOV A,C\<close>
       tick (4 + 1) (m\<lparr>A := C m\<rparr>)
     else if op = 0x7a then \<comment> \<open>MOV A,D\<close>
       tick (4 + 1) (m\<lparr>A := D m\<rparr>)
     else if op = 0x7b then \<comment> \<open>MOV A,E\<close>
       tick (4 + 1) (m\<lparr>A := E m\<rparr>)
     else if op = 0x7c then \<comment> \<open>MOV A,H\<close>
       tick (4 + 1) (m\<lparr>A := H m\<rparr>)
     else if op = 0x7d then \<comment> \<open>MOV A,L\<close>
       tick (4 + 1) (m\<lparr>A := L m\<rparr>)
     else if op = 0x7e then \<comment> \<open>MOV A,M\<close>
       tick (4 + 3) (m\<lparr>A := memrdr m (rp (H m) (L m))\<rparr>)
     else if op = 0x80 then \<comment> \<open>ADD B\<close>
       finish_add (B m) 4 m
     else if op = 0x81 then \<comment> \<open>ADD C\<close>
       finish_add (C m) 4 m
     else if op = 0x82 then \<comment> \<open>ADD D\<close>
       finish_add (D m) 4 m
     else if op = 0x83 then \<comment> \<open>ADD E\<close>
       finish_add (E m) 4 m
     else if op = 0x84 then \<comment> \<open>ADD H\<close>
       finish_add (H m) 4 m
     else if op = 0x85 then \<comment> \<open>ADD L\<close>
       finish_add (L m) 4 m
     else if op = 0x86 then \<comment> \<open>ADD M\<close>
       finish_add (memrdr m (rp (H m) (L m))) (4 + 3) m
     else if op = 0x87 then \<comment> \<open>ADD A\<close>
       finish_add (A m) 4 m
     else if op = 0x88 then \<comment> \<open>ADC B\<close>
       finish_adc (B m) 4 m
     else if op = 0x89 then \<comment> \<open>ADC C\<close>
       finish_adc (C m) 4 m
     else if op = 0x8a then \<comment> \<open>ADC D\<close>
       finish_adc (D m) 4 m
     else if op = 0x8b then \<comment> \<open>ADC E\<close>
       finish_adc (E m) 4 m
     else if op = 0x8c then \<comment> \<open>ADC H\<close>
       finish_adc (H m) 4 m
     else if op = 0x8d then \<comment> \<open>ADC L\<close>
       finish_adc (L m) 4 m
     else if op = 0x8e then \<comment> \<open>ADC M\<close>
       finish_adc (memrdr m (rp (H m) (L m))) (4 + 3) m
     else if op = 0x8f then \<comment> \<open>ADC A\<close>
       finish_adc (A m) 4 m
     else if op = 0x90 then \<comment> \<open>SUB B\<close>
       finish_sub (B m) 4 m
     else if op = 0x91 then \<comment> \<open>SUB C\<close>
       finish_sub (C m) 4 m
     else if op = 0x92 then \<comment> \<open>SUB D\<close>
       finish_sub (D m) 4 m
     else if op = 0x93 then \<comment> \<open>SUB E\<close>
       finish_sub (E m) 4 m
     else if op = 0x94 then \<comment> \<open>SUB H\<close>
       finish_sub (H m) 4 m
     else if op = 0x95 then \<comment> \<open>SUB L\<close>
       finish_sub (L m) 4 m
     else if op = 0x96 then \<comment> \<open>SUB M\<close>
       finish_sub (memrdr m (rp (H m) (L m))) (4 + 3) m
     else if op = 0x97 then \<comment> \<open>SUB A\<close>
       tick 4 (m\<lparr>F := Z_FLAG OR H_FLAG OR P_FLAG, A := 0\<rparr>)
     else if op = 0x98 then \<comment> \<open>SBB B\<close>
       finish_sbb (B m) 4 m
     else if op = 0x99 then \<comment> \<open>SBB C\<close>
       finish_sbb (C m) 4 m
     else if op = 0x9a then \<comment> \<open>SBB D\<close>
       finish_sbb (D m) 4 m
     else if op = 0x9b then \<comment> \<open>SBB E\<close>
       finish_sbb (E m) 4 m
     else if op = 0x9c then \<comment> \<open>SBB H\<close>
       finish_sbb (H m) 4 m
     else if op = 0x9d then \<comment> \<open>SBB L\<close>
       finish_sbb (L m) 4 m
     else if op = 0x9e then \<comment> \<open>SBB M\<close>
       finish_sbb (memrdr m (rp (H m) (L m))) (4 + 3) m
     else if op = 0x9f then \<comment> \<open>SBB A\<close>
       finish_sbb (A m) 4 m
     else if op = 0xa0 then \<comment> \<open>ANA B\<close>
       finish_ana (B m) 4 m
     else if op = 0xa1 then \<comment> \<open>ANA C\<close>
       finish_ana (C m) 4 m
     else if op = 0xa2 then \<comment> \<open>ANA D\<close>
       finish_ana (D m) 4 m
     else if op = 0xa3 then \<comment> \<open>ANA E\<close>
       finish_ana (E m) 4 m
     else if op = 0xa4 then \<comment> \<open>ANA H\<close>
       finish_ana (H m) 4 m
     else if op = 0xa5 then \<comment> \<open>ANA L\<close>
       finish_ana (L m) 4 m
     else if op = 0xa6 then \<comment> \<open>ANA M\<close>
       finish_ana (memrdr m (rp (H m) (L m))) (4 + 3) m
     else if op = 0xa7 then \<comment> \<open>ANA A\<close>
       finish_ana (A m) 4 m
     else if op = 0xa8 then \<comment> \<open>XRA B\<close>
       (let a = A m XOR B m in tick 4 (m\<lparr>A := a, F := szp_flags a\<rparr>))
     else if op = 0xa9 then \<comment> \<open>XRA C\<close>
       (let a = A m XOR C m in tick 4 (m\<lparr>A := a, F := szp_flags a\<rparr>))
     else if op = 0xaa then \<comment> \<open>XRA D\<close>
       (let a = A m XOR D m in tick 4 (m\<lparr>A := a, F := szp_flags a\<rparr>))
     else if op = 0xab then \<comment> \<open>XRA E\<close>
       (let a = A m XOR E m in tick 4 (m\<lparr>A := a, F := szp_flags a\<rparr>))
     else if op = 0xac then \<comment> \<open>XRA H\<close>
       (let a = A m XOR H m in tick 4 (m\<lparr>A := a, F := szp_flags a\<rparr>))
     else if op = 0xad then \<comment> \<open>XRA L\<close>
       (let a = A m XOR L m in tick 4 (m\<lparr>A := a, F := szp_flags a\<rparr>))
     else if op = 0xae then \<comment> \<open>XRA M\<close>
       (let a = A m XOR memrdr m (rp (H m) (L m))
        in tick (4 + 3) (m\<lparr>A := a, F := szp_flags a\<rparr>))
     else if op = 0xaf then \<comment> \<open>XRA A\<close>
       tick 4 (m\<lparr>A := 0, F := Z_FLAG OR P_FLAG\<rparr>)
     else if op = 0xb0 then \<comment> \<open>ORA B\<close>
       (let a = A m OR B m in tick 4 (m\<lparr>A := a, F := szp_flags a\<rparr>))
     else if op = 0xb1 then \<comment> \<open>ORA C\<close>
       (let a = A m OR C m in tick 4 (m\<lparr>A := a, F := szp_flags a\<rparr>))
     else if op = 0xb2 then \<comment> \<open>ORA D\<close>
       (let a = A m OR D m in tick 4 (m\<lparr>A := a, F := szp_flags a\<rparr>))
     else if op = 0xb3 then \<comment> \<open>ORA E\<close>
       (let a = A m OR E m in tick 4 (m\<lparr>A := a, F := szp_flags a\<rparr>))
     else if op = 0xb4 then \<comment> \<open>ORA H\<close>
       (let a = A m OR H m in tick 4 (m\<lparr>A := a, F := szp_flags a\<rparr>))
     else if op = 0xb5 then \<comment> \<open>ORA L\<close>
       (let a = A m OR L m in tick 4 (m\<lparr>A := a, F := szp_flags a\<rparr>))
     else if op = 0xb6 then \<comment> \<open>ORA M\<close>
       (let a = A m OR memrdr m (rp (H m) (L m))
        in tick (4 + 3) (m\<lparr>A := a, F := szp_flags a\<rparr>))
     else if op = 0xb7 then \<comment> \<open>ORA A\<close>
       tick 4 (m\<lparr>F := szp_flags (A m)\<rparr>)
     else if op = 0xb8 then \<comment> \<open>CMP B\<close>
       finish_cmp (B m) 4 m
     else if op = 0xb9 then \<comment> \<open>CMP C\<close>
       finish_cmp (C m) 4 m
     else if op = 0xba then \<comment> \<open>CMP D\<close>
       finish_cmp (D m) 4 m
     else if op = 0xbb then \<comment> \<open>CMP E\<close>
       finish_cmp (E m) 4 m
     else if op = 0xbc then \<comment> \<open>CMP H\<close>
       finish_cmp (H m) 4 m
     else if op = 0xbd then \<comment> \<open>CMP L\<close>
       finish_cmp (L m) 4 m
     else if op = 0xbe then \<comment> \<open>CMP M\<close>
       finish_cmp (memrdr m (rp (H m) (L m))) (4 + 3) m
     else if op = 0xbf then \<comment> \<open>CMP A\<close>
       tick 4 (m\<lparr>F := Z_FLAG OR H_FLAG OR P_FLAG\<rparr>)
     else if op = 0xc0 then \<comment> \<open>RNZ\<close>
       finish_retc (\<not> nz (F m AND Z_FLAG)) 4 m
     else if op = 0xc1 then \<comment> \<open>POP B\<close>
       tick (4 + 6) (m\<lparr>C := memrdr m (SP8 m), B := memrdr m (SP8 m + 1),
         SP8 := SP8 m + 2\<rparr>)
     else if op = 0xc2 then \<comment> \<open>JNZ nn\<close>
       finish_jmpc (\<not> nz (F m AND Z_FLAG)) 4 m
     else if op = 0xc3 \<or> op = 0xcb then \<comment> \<open>JMP nn and its aliases\<close>
       (let addr = rp (memrdr m (PC8 m + 1)) (memrdr m (PC8 m))
        in tick (4 + 6) (m\<lparr>PC8 := addr\<rparr>))
     else if op = 0xc4 then \<comment> \<open>CNZ nn\<close>
       finish_callc (\<not> nz (F m AND Z_FLAG)) 4 m
     else if op = 0xc5 then \<comment> \<open>PUSH B\<close>
       (let m1 = memwrt (SP8 m - 1) (B m) (m\<lparr>SP8 := SP8 m - 1\<rparr>);
            m2 = memwrt (SP8 m1 - 1) (C m1) (m1\<lparr>SP8 := SP8 m1 - 1\<rparr>)
        in tick (4 + 7) m2)
     else if op = 0xc6 then \<comment> \<open>ADI n\<close>
       finish_add (memrdr m (PC8 m)) (4 + 3) (m\<lparr>PC8 := PC8 m + 1\<rparr>)
     else if op = 0xc7 then \<comment> \<open>RST 0\<close>
       finish_call 0x00 (4 + 1) m
     else if op = 0xc8 then \<comment> \<open>RZ\<close>
       finish_retc (nz (F m AND Z_FLAG)) 4 m
     else if op = 0xc9 \<or> op = 0xd9 then \<comment> \<open>RET and its aliases\<close>
       finish_ret 4 m
     else if op = 0xca then \<comment> \<open>JZ nn\<close>
       finish_jmpc (nz (F m AND Z_FLAG)) 4 m
     else if op = 0xcc then \<comment> \<open>CZ nn\<close>
       finish_callc (nz (F m AND Z_FLAG)) 4 m
     else if op = 0xcd \<or> op = 0xdd \<or> op = 0xed \<or>
          op = 0xfd then
       \<comment> \<open>CALL nn and its aliases\<close>
       finish_call (imm16 m) (4 + 7) (m\<lparr>PC8 := PC8 m + 2\<rparr>)
     else if op = 0xce then \<comment> \<open>ACI n\<close>
       finish_adc (memrdr m (PC8 m)) (4 + 3) (m\<lparr>PC8 := PC8 m + 1\<rparr>)
     else if op = 0xcf then \<comment> \<open>RST 1\<close>
       finish_call 0x08 (4 + 1) m
     else if op = 0xd0 then \<comment> \<open>RNC\<close>
       finish_retc (\<not> nz (F m AND C_FLAG)) 4 m
     else if op = 0xd1 then \<comment> \<open>POP D\<close>
       tick (4 + 6) (m\<lparr>E := memrdr m (SP8 m), D := memrdr m (SP8 m + 1),
         SP8 := SP8 m + 2\<rparr>)
     else if op = 0xd2 then \<comment> \<open>JNC nn\<close>
       finish_jmpc (\<not> nz (F m AND C_FLAG)) 4 m
     else if op = 0xd3 then \<comment> \<open>OUT n\<close>
       (let p = memrdr m (PC8 m)
        in tick (4 + 6) (m\<lparr>PC8 := PC8 m + 1,
             iodev := io_out dev (iodev m) p p (A m)\<rparr>))
     else if op = 0xd4 then \<comment> \<open>CNC nn\<close>
       finish_callc (\<not> nz (F m AND C_FLAG)) 4 m
     else if op = 0xd5 then \<comment> \<open>PUSH D\<close>
       (let m1 = memwrt (SP8 m - 1) (D m) (m\<lparr>SP8 := SP8 m - 1\<rparr>);
            m2 = memwrt (SP8 m1 - 1) (E m1) (m1\<lparr>SP8 := SP8 m1 - 1\<rparr>)
        in tick (4 + 7) m2)
     else if op = 0xd6 then \<comment> \<open>SUI n\<close>
       finish_sub (memrdr m (PC8 m)) (4 + 3) (m\<lparr>PC8 := PC8 m + 1\<rparr>)
     else if op = 0xd7 then \<comment> \<open>RST 2\<close>
       finish_call 0x10 (4 + 1) m
     else if op = 0xd8 then \<comment> \<open>RC\<close>
       finish_retc (nz (F m AND C_FLAG)) 4 m
     else if op = 0xda then \<comment> \<open>JC nn\<close>
       finish_jmpc (nz (F m AND C_FLAG)) 4 m
     else if op = 0xdb then \<comment> \<open>IN n\<close>
       (let p = memrdr m (PC8 m);
            (v, d) = io_in dev (iodev m) p p
        in tick (4 + 6) (m\<lparr>PC8 := PC8 m + 1, A := v, iodev := d\<rparr>))
     else if op = 0xdc then \<comment> \<open>CC nn\<close>
       finish_callc (nz (F m AND C_FLAG)) 4 m
     else if op = 0xde then \<comment> \<open>SBI n\<close>
       finish_sbb (memrdr m (PC8 m)) (4 + 3) (m\<lparr>PC8 := PC8 m + 1\<rparr>)
     else if op = 0xdf then \<comment> \<open>RST 3\<close>
       finish_call 0x18 (4 + 1) m
     else if op = 0xe0 then \<comment> \<open>RPO\<close>
       finish_retc (\<not> nz (F m AND P_FLAG)) 4 m
     else if op = 0xe1 then \<comment> \<open>POP H\<close>
       tick (4 + 6) (m\<lparr>L := memrdr m (SP8 m), H := memrdr m (SP8 m + 1),
         SP8 := SP8 m + 2\<rparr>)
     else if op = 0xe2 then \<comment> \<open>JPO nn\<close>
       finish_jmpc (\<not> nz (F m AND P_FLAG)) 4 m
     else if op = 0xe3 then \<comment> \<open>XTHL\<close>
       (let p1 = memrdr m (SP8 m);
            m1 = (memwrt (SP8 m) (L m) m)\<lparr>L := p1\<rparr>;
            p2 = memrdr m1 (SP8 m1 + 1);
            m2 = (memwrt (SP8 m1 + 1) (H m1) m1)\<lparr>H := p2\<rparr>
        in tick (4 + 14) m2)
     else if op = 0xe4 then \<comment> \<open>CPO nn\<close>
       finish_callc (\<not> nz (F m AND P_FLAG)) 4 m
     else if op = 0xe5 then \<comment> \<open>PUSH H\<close>
       (let m1 = memwrt (SP8 m - 1) (H m) (m\<lparr>SP8 := SP8 m - 1\<rparr>);
            m2 = memwrt (SP8 m1 - 1) (L m1) (m1\<lparr>SP8 := SP8 m1 - 1\<rparr>)
        in tick (4 + 7) m2)
     else if op = 0xe6 then \<comment> \<open>ANI n\<close>
       finish_ana (memrdr m (PC8 m)) (4 + 3) (m\<lparr>PC8 := PC8 m + 1\<rparr>)
     else if op = 0xe7 then \<comment> \<open>RST 4\<close>
       finish_call 0x20 (4 + 1) m
     else if op = 0xe8 then \<comment> \<open>RPE\<close>
       finish_retc (nz (F m AND P_FLAG)) 4 m
     else if op = 0xe9 then \<comment> \<open>PCHL\<close>
       tick (4 + 1) (m\<lparr>PC8 := rp (H m) (L m)\<rparr>)
     else if op = 0xea then \<comment> \<open>JPE nn\<close>
       finish_jmpc (nz (F m AND P_FLAG)) 4 m
     else if op = 0xeb then \<comment> \<open>XCHG\<close>
       tick 4 (m\<lparr>D := H m, H := D m, E := L m, L := E m\<rparr>)
     else if op = 0xec then \<comment> \<open>CPE nn\<close>
       finish_callc (nz (F m AND P_FLAG)) 4 m
     else if op = 0xee then \<comment> \<open>XRI n\<close>
       (let a = A m XOR memrdr m (PC8 m)
        in tick (4 + 3) (m\<lparr>A := a, PC8 := PC8 m + 1, F := szp_flags a\<rparr>))
     else if op = 0xef then \<comment> \<open>RST 5\<close>
       finish_call 0x28 (4 + 1) m
     else if op = 0xf0 then \<comment> \<open>RP\<close>
       finish_retc (\<not> nz (F m AND S_FLAG)) 4 m
     else if op = 0xf1 then \<comment> \<open>POP PSW\<close>
       tick (4 + 6) (m\<lparr>F := memrdr m (SP8 m), A := memrdr m (SP8 m + 1),
         SP8 := SP8 m + 2\<rparr>)
     else if op = 0xf2 then \<comment> \<open>JP nn\<close>
       finish_jmpc (\<not> nz (F m AND S_FLAG)) 4 m
     else if op = 0xf3 then \<comment> \<open>DI\<close>
       tick 4 (m\<lparr>IFF := 0\<rparr>)
     else if op = 0xf4 then \<comment> \<open>CP nn\<close>
       finish_callc (\<not> nz (F m AND S_FLAG)) 4 m
     else if op = 0xf5 then \<comment> \<open>PUSH PSW\<close>
       (let m1 = memwrt (SP8 m - 1) (A m) (m\<lparr>SP8 := SP8 m - 1\<rparr>);
            m2 = memwrt (SP8 m1 - 1) ((F m1 AND NOT (Y_FLAG OR X_FLAG)) OR
              N_FLAG) (m1\<lparr>SP8 := SP8 m1 - 1\<rparr>)
        in tick (4 + 7) m2)
     else if op = 0xf6 then \<comment> \<open>ORI n\<close>
       (let a = A m OR memrdr m (PC8 m)
        in tick (4 + 3) (m\<lparr>A := a, PC8 := PC8 m + 1, F := szp_flags a\<rparr>))
     else if op = 0xf7 then \<comment> \<open>RST 6\<close>
       finish_call 0x30 (4 + 1) m
     else if op = 0xf8 then \<comment> \<open>RM\<close>
       finish_retc (nz (F m AND S_FLAG)) 4 m
     else if op = 0xf9 then \<comment> \<open>SPHL\<close>
       tick (4 + 1) (m\<lparr>SP8 := rp (H m) (L m)\<rparr>)
     else if op = 0xfa then \<comment> \<open>JM nn\<close>
       finish_jmpc (nz (F m AND S_FLAG)) 4 m
     else if op = 0xfb then \<comment> \<open>EI\<close>
       tick 4 (m\<lparr>IFF := 3\<rparr>)
     else if op = 0xfc then \<comment> \<open>CM nn\<close>
       finish_callc (nz (F m AND S_FLAG)) 4 m
     else if op = 0xfe then \<comment> \<open>CPI n\<close>
       finish_cmp (memrdr m (PC8 m)) (4 + 3) (m\<lparr>PC8 := PC8 m + 1\<rparr>)
     else if op = 0xff then \<comment> \<open>RST 7\<close>
       finish_call 0x38 (4 + 1) m
     else tick 0 m)"

text \<open>
  One pass through the loop body: \<^verbatim>\<open>t = 4; switch (memrdr(PC8++)) { ... } tstates += t;\<close>
\<close>

definition step :: "'io iosim \<Rightarrow> 'io machine \<Rightarrow> 'io machine" where
  "step dev m = exec dev (memrdr m (PC8 m)) (m\<lparr>PC8 := PC8 m + 1\<rparr>)"

text \<open>
  \<^verbatim>\<open>do { ... } while (State == Running);\<close> The body runs once before the first test.
  The loop need not end, so the result is an option: \<open>None\<close> when it runs for ever. The
  interrupt handler \<^verbatim>\<open>user_int\<close>, which sets \<^verbatim>\<open>State\<close> from outside, is not part
  of the model.
\<close>

partial_function (option) cpu_8080 :: "'io iosim \<Rightarrow> 'io machine \<Rightarrow> 'io machine option" where
  "cpu_8080 dev m =
     (let m' = step dev m in if State m' = Running then cpu_8080 dev m' else Some m')"

section \<open>Notions used to state the properties\<close>

text \<open>The number of one bits of a byte.\<close>

definition popcount :: "byte \<Rightarrow> nat" where
  "popcount v =
     of_bool (bit v 0) + of_bool (bit v 1) + of_bool (bit v 2) + of_bool (bit v 3) +
     of_bool (bit v 4) + of_bool (bit v 5) + of_bool (bit v 6) + of_bool (bit v 7)"

text \<open>
  The table entry as the specification words it: S for values from \<open>0x80\<close>, Z for zero,
  P for an even number of one bits, nothing else.
\<close>

definition szp_spec :: "byte \<Rightarrow> byte" where
  "szp_spec v =
     (if 0x80 \<le> v then S_FLAG else 0) OR (if v = 0 then Z_FLAG else 0) OR
     (if even (popcount v) then P_FLAG else 0)"

text \<open>The X and Y bits of a flag byte are both 0.\<close>

definition xy_clear :: "byte \<Rightarrow> bool" where
  "xy_clear f = (f AND (X_FLAG OR Y_FLAG) = 0)"

text \<open>
  Sample collaborators for concrete runs: a device that reads \<open>0xff\<close> on every port and
  ignores writes, a memory holding a program from address 0 and zero elsewhere, and a
  linear congruential generator in the place of the Arduino \<^verbatim>\<open>random\<close>.
\<close>

definition nodev :: "unit iosim" where
  "nodev = \<lparr>io_in = (\<lambda>d p q. (0xff, d)), io_out = (\<lambda>d p q v. d)\<rparr>"

definition program_at_0 :: "byte list \<Rightarrow> word16 \<Rightarrow> byte" where
  "program_at_0 bs a = (if unat a < length bs then bs ! unat a else 0)"

definition lcg_random :: "int \<Rightarrow> int \<Rightarrow> int \<times> int" where
  "lcg_random g howbig = (g mod howbig, (g * 1103515245 + 12345) mod 2147483648)"

text \<open>A flag, given by its mask, is set in a flag byte.\<close>

definition flag_set :: "byte \<Rightarrow> byte \<Rightarrow> bool" where
  "flag_set fl f = (f AND fl = fl)"

text \<open>The carry flag as the number 0 or 1, the carry-in of ADC and SBB.\<close>

definition carry_in :: "byte \<Rightarrow> byte" where
  "carry_in f = (if flag_set C_FLAG f then 1 else 0)"

text \<open>
  The carry-out bytes as the specification writes them: bit \<open>i\<close> is the carry out of bit
  \<open>i\<close>, for an addition and for a subtraction with result \<open>r\<close>.
\<close>

definition add_cout :: "byte \<Rightarrow> byte \<Rightarrow> byte \<Rightarrow> byte" where
  "add_cout a b r = (a AND b) OR ((a OR b) AND NOT r)"

definition sub_cout :: "byte \<Rightarrow> byte \<Rightarrow> byte \<Rightarrow> byte" where
  "sub_cout a b r = (NOT a AND b) OR ((NOT a OR b) AND r)"

text \<open>
  What an instruction of the subtraction family leaves in \<open>m'\<close> when it runs on \<open>m\<close>
  with operand \<open>b\<close> and carry-in \<open>cin\<close>: C is bit 7 of the carry-outs, H the inverse of
  their bit 3, S, Z and P come from the table, and the accumulator takes the result when
  \<open>store\<close> holds and stays as it was otherwise.
\<close>

definition sub_family ::
  "byte \<Rightarrow> byte \<Rightarrow> bool \<Rightarrow> 'io machine \<Rightarrow> 'io machine \<Rightarrow> bool" where
  "sub_family b cin store m m' =
     (let a = A m; r = a - b - cin; cout = sub_cout a b r
      in (flag_set C_FLAG (F m') = bit cout 7) \<and>
         (flag_set H_FLAG (F m') = (\<not> bit cout 3)) \<and>
         F m' AND SZP_FLAGS = szp_flags r \<and>
         A m' = (if store then r else a))"

text \<open>
  What an addition of \<open>b\<close> to the accumulator value \<open>a\<close> leaves in \<open>m'\<close>: the sum modulo
  256 in A, C set iff the sum reaches 256, and that is bit 7 of the carry-outs, H their
  bit 3, S, Z and P from the table.
\<close>

definition add_result :: "byte \<Rightarrow> byte \<Rightarrow> 'io machine \<Rightarrow> bool" where
  "add_result a b m' =
     (let r = a + b; cout = add_cout a b r
      in A m' = r \<and> unat (A m') = (unat a + unat b) mod 256 \<and>
         (flag_set C_FLAG (F m') = (256 \<le> unat a + unat b)) \<and>
         (flag_set C_FLAG (F m') = bit cout 7) \<and>
         (flag_set H_FLAG (F m') = bit cout 3) \<and>
         F m' AND SZP_FLAGS = szp_flags r)"

text \<open>
  The adjustment of DAA as the specification words it, from the accumulator and the C and
  H flags before the instruction.
\<close>

definition daa_adjust :: "byte \<Rightarrow> bool \<Rightarrow> bool \<Rightarrow> byte" where
  "daa_adjust a c h =
     (if 9 < a AND 0x0f \<or> h then 0x06 else 0) OR (if 0x99 < a \<or> c then 0x60 else 0)"

text \<open>
  The generator state after the draws with the given bounds, and the number drawn next.
\<close>

fun rng_after :: "('g \<Rightarrow> int \<Rightarrow> int \<times> 'g) \<Rightarrow> 'g \<Rightarrow> int list \<Rightarrow> 'g" where
  "rng_after random g [] = g"
| "rng_after random g (n # ns) = rng_after random (snd (random g n)) ns"

definition draw_after ::
  "('g \<Rightarrow> int \<Rightarrow> int \<times> 'g) \<Rightarrow> 'g \<Rightarrow> int list \<Rightarrow> int \<Rightarrow> int" where
  "draw_after random g ns n = fst (random (rng_after random g ns) n)"

text \<open>
  The machine as \<^verbatim>\<open>loop\<close> hands it to \<^verbatim>\<open>cpu_8080\<close>: the globals at their initial
  values, \<^verbatim>\<open>init_cpu\<close> run on them with the sample generator, a program at address 0
  and the sample device.
\<close>

definition reset_with :: "byte list \<Rightarrow> unit machine" where
  "reset_with prog = fst (init_cpu lcg_random 2 (power_on (program_at_0 prog) ()))"

text \<open>
  The documented instructions NOP, JMP nn, RET and CALL nn as the specification words
  them, to compare the arms of the undocumented opcodes with. The machine is the one
  after the opcode fetch, with PC at the first operand byte.
  \<^item> The 16-bit operand is read at PC and PC + 1, low byte first: \<open>nn = low | (high << 8)\<close>.
  \<^item> NOP changes nothing; its total is 4 T-states.
  \<^item> JMP assigns \<open>PC \<leftarrow> nn\<close>; its total is 10.
  \<^item> RET pops: \<open>low \<leftarrow> read(SP)\<close>, \<open>high \<leftarrow> read(SP + 1)\<close>, SP goes up by 2 and
    \<open>PC \<leftarrow> (high << 8) | low\<close>; its total is 10.
  \<^item> CALL pushes the PC past the two operand bytes, high byte at SP - 1 and low byte at
    SP - 2, leaves SP two lower and assigns \<open>PC \<leftarrow> nn\<close>; its total is 17.
\<close>

definition spec_nn :: "'io machine \<Rightarrow> word16" where
  "spec_nn m = ucast (mem m (PC8 m)) OR push_bit 8 (ucast (mem m (PC8 m + 1)))"

definition spec_NOP :: "'io machine \<Rightarrow> 'io machine" where
  "spec_NOP m = m\<lparr>tstates := tstates m + 4\<rparr>"

definition spec_JMP :: "'io machine \<Rightarrow> 'io machine" where
  "spec_JMP m = m\<lparr>PC8 := spec_nn m, tstates := tstates m + 10\<rparr>"

definition spec_RET :: "'io machine \<Rightarrow> 'io machine" where
  "spec_RET m =
     (let low = mem m (SP8 m); high = mem m (SP8 m + 1)
      in m\<lparr>PC8 := push_bit 8 (ucast high) OR ucast low, SP8 := SP8 m + 2,
            tstates := tstates m + 10\<rparr>)"

definition spec_CALL :: "'io machine \<Rightarrow> 'io machine" where
  "spec_CALL m =
     (let nn = spec_nn m; ret = PC8 m + 2; sp1 = SP8 m - 1; sp2 = sp1 - 1
      in m\<lparr>PC8 := nn, SP8 := sp2,
            mem := (mem m)(sp1 := ucast (drop_bit 8 ret), sp2 := ucast ret),
            tstates := tstates m + 17\<rparr>)"

section \<open>Basic facts\<close>

lemmas flag_defs = C_FLAG_def N_FLAG_def P_FLAG_def X_FLAG_def H_FLAG_def Y_FLAG_def
  Z_FLAG_def S_FLAG_def C_SHIFT_def H_SHIFT_def SZP_FLAGS_def

lemmas finish_defs = finish_inr_def finish_dcr_def finish_dad_def finish_add_def finish_adc_def
  finish_sub_def finish_sbb_def finish_ana_def finish_cmp_def finish_ret_def finish_retc_def
  finish_jmpc_def finish_call_def finish_callc_def

subsection \<open>The table in closed form\<close>

lemma upt_256: "[0..<256] = 0 # 1 # [2..<256]"
  by (simp add: upt_conv_Cons)

lemma byte_128_not_le_1: "\<not> (128::byte) \<le> 1"
  by (simp add: word_le_nat_alt)

lemma szp_table_eq: "szp_table = map (\<lambda>n. szp_spec (of_nat n)) [0..<256]"
  unfolding upt_256
  by (simp add: szp_table_def szp_spec_def flag_defs popcount_def byte_128_not_le_1)

lemma szp_flags_eq: "szp_flags v = szp_spec v"
proof -
  have "unat v < 256"
    using unsigned_less [of v] by simp
  then show ?thesis
    unfolding szp_flags_def szp_table_eq by simp
qed

text \<open>
  C6: for every byte \<open>v\<close>, the table entry \<open>szp_flags v\<close> has S set iff \<open>v \<ge> 0x80\<close>,
  Z set iff \<open>v = 0\<close>, P set iff the number of one bits of \<open>v\<close> is even, and every other
  bit zero.
\<close>

theorem szp_flags_entries:
  "(flag_set S_FLAG (szp_flags v) = (0x80 \<le> v)) \<and>
   (flag_set Z_FLAG (szp_flags v) = (v = 0)) \<and>
   (flag_set P_FLAG (szp_flags v) = even (popcount v)) \<and>
   szp_flags v AND NOT (S_FLAG OR Z_FLAG OR P_FLAG) = 0"
  by (simp add: flag_set_def szp_flags_eq szp_spec_def flag_defs)

subsection \<open>Undocumented opcodes\<close>

lemma exec_NOP: "exec dev 0x00 m = spec_NOP m"
  by (simp add: exec_def tick_def spec_NOP_def)

lemma exec_JMP: "exec dev 0xc3 m = spec_JMP m"
  by (simp add: exec_def tick_def spec_JMP_def spec_nn_def rp_def memrdr_def Let_def or.commute)

lemma exec_RET: "exec dev 0xc9 m = spec_RET m"
  by (simp add: exec_def tick_def spec_RET_def finish_ret_def rp_def memrdr_def Let_def)

lemma exec_CALL: "exec dev 0xcd m = spec_CALL m"
  by (rule machine.equality)
     (simp_all add: exec_def tick_def spec_CALL_def spec_nn_def finish_call_def imm16_def rp_def
       hi8_def memrdr_def memwrt_def Let_def or.commute)

lemma exec_aliases:
  "exec dev 0x08 m = exec dev 0x00 m" "exec dev 0x10 m = exec dev 0x00 m"
  "exec dev 0x18 m = exec dev 0x00 m" "exec dev 0x20 m = exec dev 0x00 m"
  "exec dev 0x28 m = exec dev 0x00 m" "exec dev 0x30 m = exec dev 0x00 m"
  "exec dev 0x38 m = exec dev 0x00 m"
  "exec dev 0xcb m = exec dev 0xc3 m"
  "exec dev 0xd9 m = exec dev 0xc9 m"
  "exec dev 0xdd m = exec dev 0xcd m" "exec dev 0xed m = exec dev 0xcd m"
  "exec dev 0xfd m = exec dev 0xcd m"
  by (simp_all add: exec_def)

text \<open>
  C8: on every machine state and memory, each undocumented opcode gives the same state
  and the same T-state charge as its documented counterpart: \<open>0x08\<close>, \<open>0x10\<close>,
  \<open>0x18\<close>, \<open>0x20\<close>, \<open>0x28\<close>, \<open>0x30\<close>, \<open>0x38\<close> as NOP (\<open>0x00\<close>), \<open>0xCB\<close> as JMP
  (\<open>0xC3\<close>), \<open>0xD9\<close> as RET (\<open>0xC9\<close>), and \<open>0xDD\<close>, \<open>0xED\<close>, \<open>0xFD\<close> as CALL
  (\<open>0xCD\<close>). The documented opcodes, and with them the aliases, do what the
  specification says of NOP, JMP nn, RET and CALL nn: nothing for 4 T-states; a jump to
  the 16-bit operand for 10; a pop of PC from the stack for 10; a push of the return
  address, high byte at SP - 1 and low byte at SP - 2, and a jump to the operand for 17.
\<close>

theorem undocumented_opcodes_alias:
  "(exec dev 0x08 m = exec dev 0x00 m \<and> exec dev 0x10 m = exec dev 0x00 m \<and>
    exec dev 0x18 m = exec dev 0x00 m \<and> exec dev 0x20 m = exec dev 0x00 m \<and>
    exec dev 0x28 m = exec dev 0x00 m \<and> exec dev 0x30 m = exec dev 0x00 m \<and>
    exec dev 0x38 m = exec dev 0x00 m \<and>
    exec dev 0xcb m = exec dev 0xc3 m \<and>
    exec dev 0xd9 m = exec dev 0xc9 m \<and>
    exec dev 0xdd m = exec dev 0xcd m \<and> exec dev 0xed m = exec dev 0xcd m \<and>
    exec dev 0xfd m = exec dev 0xcd m) \<and>
   (exec dev 0x00 m = spec_NOP m \<and> exec dev 0xc3 m = spec_JMP m \<and>
    exec dev 0xc9 m = spec_RET m \<and> exec dev 0xcd m = spec_CALL m) \<and>
   (exec dev 0x08 m = spec_NOP m \<and> exec dev 0x10 m = spec_NOP m \<and>
    exec dev 0x18 m = spec_NOP m \<and> exec dev 0x20 m = spec_NOP m \<and>
    exec dev 0x28 m = spec_NOP m \<and> exec dev 0x30 m = spec_NOP m \<and>
    exec dev 0x38 m = spec_NOP m \<and>
    exec dev 0xcb m = spec_JMP m \<and>
    exec dev 0xd9 m = spec_RET m \<and>
    exec dev 0xdd m = spec_CALL m \<and> exec dev 0xed m = spec_CALL m \<and>
    exec dev 0xfd m = spec_CALL m) \<and>
   (tstates (exec dev 0x08 m) = tstates m + 4 \<and> tstates (exec dev 0x10 m) = tstates m + 4 \<and>
    tstates (exec dev 0x18 m) = tstates m + 4 \<and> tstates (exec dev 0x20 m) = tstates m + 4 \<and>
    tstates (exec dev 0x28 m) = tstates m + 4 \<and> tstates (exec dev 0x30 m) = tstates m + 4 \<and>
    tstates (exec dev 0x38 m) = tstates m + 4 \<and>
    tstates (exec dev 0xcb m) = tstates m + 10 \<and>
    tstates (exec dev 0xd9 m) = tstates m + 10 \<and>
    tstates (exec dev 0xdd m) = tstates m + 17 \<and> tstates (exec dev 0xed m) = tstates m + 17 \<and>
    tstates (exec dev 0xfd m) = tstates m + 17) \<and>
   (PC8 (exec dev 0xcb m) = spec_nn m \<and>
    PC8 (exec dev 0xd9 m) =
      push_bit 8 (ucast (mem m (SP8 m + 1))) OR ucast (mem m (SP8 m)) \<and>
    SP8 (exec dev 0xd9 m) = SP8 m + 2 \<and>
    PC8 (exec dev 0xdd m) = spec_nn m \<and> SP8 (exec dev 0xdd m) = SP8 m - 2 \<and>
    mem (exec dev 0xdd m) (SP8 m - 1) = ucast (drop_bit 8 (PC8 m + 2)) \<and>
    mem (exec dev 0xdd m) (SP8 m - 2) = ucast (PC8 m + 2))"
proof (intro conjI)
  show "exec dev 0x08 m = exec dev 0x00 m" "exec dev 0x10 m = exec dev 0x00 m"
    "exec dev 0x18 m = exec dev 0x00 m" "exec dev 0x20 m = exec dev 0x00 m"
    "exec dev 0x28 m = exec dev 0x00 m" "exec dev 0x30 m = exec dev 0x00 m"
    "exec dev 0x38 m = exec dev 0x00 m"
    "exec dev 0xcb m = exec dev 0xc3 m"
    "exec dev 0xd9 m = exec dev 0xc9 m"
    "exec dev 0xdd m = exec dev 0xcd m" "exec dev 0xed m = exec dev 0xcd m"
    "exec dev 0xfd m = exec dev 0xcd m"
    by (rule exec_aliases)+
  show "exec dev 0x00 m = spec_NOP m" "exec dev 0xc3 m = spec_JMP m"
    "exec dev 0xc9 m = spec_RET m" "exec dev 0xcd m = spec_CALL m"
    by (rule exec_NOP exec_JMP exec_RET exec_CALL)+
  show "exec dev 0x08 m = spec_NOP m" "exec dev 0x10 m = spec_NOP m"
    "exec dev 0x18 m = spec_NOP m" "exec dev 0x20 m = spec_NOP m"
    "exec dev 0x28 m = spec_NOP m" "exec dev 0x30 m = spec_NOP m"
    "exec dev 0x38 m = spec_NOP m"
    "exec dev 0xcb m = spec_JMP m"
    "exec dev 0xd9 m = spec_RET m"
    "exec dev 0xdd m = spec_CALL m" "exec dev 0xed m = spec_CALL m"
    "exec dev 0xfd m = spec_CALL m"
    by (simp_all only: exec_aliases exec_NOP exec_JMP exec_RET exec_CALL)
  show "tstates (exec dev 0x08 m) = tstates m + 4" "tstates (exec dev 0x10 m) = tstates m + 4"
    "tstates (exec dev 0x18 m) = tstates m + 4" "tstates (exec dev 0x20 m) = tstates m + 4"
    "tstates (exec dev 0x28 m) = tstates m + 4" "tstates (exec dev 0x30 m) = tstates m + 4"
    "tstates (exec dev 0x38 m) = tstates m + 4"
    "tstates (exec dev 0xcb m) = tstates m + 10"
    "tstates (exec dev 0xd9 m) = tstates m + 10"
    "tstates (exec dev 0xdd m) = tstates m + 17" "tstates (exec dev 0xed m) = tstates m + 17"
    "tstates (exec dev 0xfd m) = tstates m + 17"
    unfolding exec_aliases exec_NOP exec_JMP exec_RET exec_CALL
    by (simp_all add: spec_NOP_def spec_JMP_def spec_RET_def spec_CALL_def Let_def)
  show "PC8 (exec dev 0xcb m) = spec_nn m"
    "PC8 (exec dev 0xd9 m) =
      push_bit 8 (ucast (mem m (SP8 m + 1))) OR ucast (mem m (SP8 m))"
    "SP8 (exec dev 0xd9 m) = SP8 m + 2"
    "PC8 (exec dev 0xdd m) = spec_nn m" "SP8 (exec dev 0xdd m) = SP8 m - 2"
    "mem (exec dev 0xdd m) (SP8 m - 1) = ucast (drop_bit 8 (PC8 m + 2))"
    "mem (exec dev 0xdd m) (SP8 m - 2) = ucast (PC8 m + 2)"
    unfolding exec_aliases exec_NOP exec_JMP exec_RET exec_CALL
    by (simp_all add: spec_JMP_def spec_RET_def spec_CALL_def Let_def)
qed

subsection \<open>Flags as bits\<close>

lemma and_pow_eq:
  assumes "n < 8"
  shows "((f::byte) AND 2 ^ n = 2 ^ n) = bit f n"
proof
  assume "f AND 2 ^ n = 2 ^ n"
  then have "bit (f AND 2 ^ n) n = bit (2 ^ n :: byte) n"
    by simp
  with assms show "bit f n"
    by (simp add: bit_and_iff bit_exp_iff)
next
  assume "bit f n"
  then show "f AND 2 ^ n = 2 ^ n"
    by (intro bit_word_eqI) (auto simp add: bit_and_iff bit_exp_iff)
qed

lemma flag_set_bit:
  "flag_set C_FLAG f = bit f 0" "flag_set P_FLAG f = bit f 2" "flag_set H_FLAG f = bit f 4"
  "flag_set Z_FLAG f = bit f 6" "flag_set S_FLAG f = bit f 7"
  "flag_set X_FLAG f = bit f 3" "flag_set Y_FLAG f = bit f 5" "flag_set N_FLAG f = bit f 1"
  using and_pow_eq [of 0 f] and_pow_eq [of 2 f] and_pow_eq [of 4 f] and_pow_eq [of 6 f]
    and_pow_eq [of 7 f] and_pow_eq [of 3 f] and_pow_eq [of 5 f] and_pow_eq [of 1 f]
  by (simp_all add: flag_set_def flag_defs)

lemma nz_flag:
  "nz (f AND C_FLAG) = bit f 0" "nz (f AND H_FLAG) = bit f 4"
  using and_exp_eq_0_iff_not_bit [of f 0] and_exp_eq_0_iff_not_bit [of f 4]
  by (simp_all add: nz_def flag_defs)

lemma bit_as_bool: "drop_bit n (x::byte) AND 1 = of_bool (bit x n)"
  by (simp add: and_one_eq bit_iff_odd_drop_bit mod_2_eq_odd)

lemma and_C_as_bool: "(f::byte) AND C_FLAG = of_bool (bit f 0)"
  by (simp add: C_FLAG_def and_one_eq bit_0 mod_2_eq_odd)

lemma carry_in_code: "drop_bit C_SHIFT f AND 1 = carry_in f"
  unfolding bit_as_bool carry_in_def flag_set_bit
  by (simp add: C_SHIFT_def)

lemma szp_cases: "szp_flags r \<in> {0, 0x04, 0x40, 0x44, 0x80, 0x84}"
  by (simp add: szp_flags_eq szp_spec_def flag_defs)

lemma szp_flags_0: "szp_flags 0 = Z_FLAG OR P_FLAG"
  by (simp add: szp_flags_eq szp_spec_def popcount_def)

text \<open>The flag byte that the arithmetic tails put together, read flag by flag.\<close>

lemma flags_assembled:
  fixes cout r :: byte
  defines "f \<equiv> push_bit C_SHIFT (drop_bit 7 cout AND 1) OR
              push_bit H_SHIFT (drop_bit 3 cout AND 1) OR szp_flags r"
  shows "flag_set C_FLAG f = bit cout 7"
    and "flag_set H_FLAG f = bit cout 3"
    and "f AND SZP_FLAGS = szp_flags r"
    and "flag_set C_FLAG (f XOR H_FLAG) = bit cout 7"
    and "flag_set H_FLAG (f XOR H_FLAG) = (\<not> bit cout 3)"
    and "(f XOR H_FLAG) AND SZP_FLAGS = szp_flags r"
  using szp_cases [of r] unfolding f_def bit_as_bool flag_set_bit
  by (auto simp add: flag_defs)

lemma flags_assembled_daa:
  fixes cout r f0 :: byte and big :: bool
  defines "f \<equiv> push_bit C_SHIFT (of_bool big) OR (f0 AND C_FLAG) OR
              push_bit H_SHIFT (drop_bit 3 cout AND 1) OR szp_flags r"
  shows "flag_set C_FLAG f = (big \<or> flag_set C_FLAG f0)"
    and "flag_set H_FLAG f = bit cout 3"
    and "f AND SZP_FLAGS = szp_flags r"
  using szp_cases [of r] unfolding f_def bit_as_bool and_C_as_bool flag_set_bit
  by (auto simp add: flag_defs)

subsection \<open>The carry out of an addition\<close>

lemma odd_div_128: "(n::nat) < 256 \<Longrightarrow> odd (n div 128) = (128 \<le> n)"
proof -
  assume a: "n < 256"
  show ?thesis
  proof (cases "n < 128")
    case True
    then show ?thesis by simp
  next
    case False
    with a have "n div 128 = 1"
      by (simp add: div_nat_eqI)
    with False show ?thesis by simp
  qed
qed

lemma bit7_unat: "bit (x::byte) 7 = (128 \<le> unat x)"
proof -
  have "unat x < 256"
    using unsigned_less [of x] by simp
  moreover have "bit x 7 = bit (unat x) 7"
    by (simp add: bit_unsigned_iff)
  moreover have "bit (unat x) 7 = odd (unat x div 128)"
    by (simp add: bit_iff_odd)
  ultimately show ?thesis
    by (simp add: odd_div_128)
qed

lemma mod_256_if: "(n::nat) < 512 \<Longrightarrow> n mod 256 = (if n < 256 then n else n - 256)"
  by (simp add: mod_if)

lemma carry_out_add:
  fixes a b :: byte
  shows "bit (add_cout a b (a + b)) 7 = (256 \<le> unat a + unat b)"
proof -
  have lt: "unat a < 256" "unat b < 256"
    using unsigned_less [of a] unsigned_less [of b] by simp_all
  have "unat (a + b) = (unat a + unat b) mod 256"
    by (simp add: unat_word_ariths)
  also have "\<dots> = (if unat a + unat b < 256 then unat a + unat b else unat a + unat b - 256)"
    using lt by (intro mod_256_if) simp
  finally have s: "unat (a + b) =
      (if unat a + unat b < 256 then unat a + unat b else unat a + unat b - 256)" .
  have "bit (add_cout a b (a + b)) 7 =
      (bit a 7 \<and> bit b 7 \<or> (bit a 7 \<or> bit b 7) \<and> \<not> bit (a + b) 7)"
    by (simp add: add_cout_def bit_or_iff bit_and_iff bit_not_iff)
  then show ?thesis
    unfolding bit7_unat s using lt
    by (auto split: if_splits)
qed

subsection \<open>The subtraction family\<close>

lemma F_finish_sub:
  "F (finish_sub p t m) =
     (push_bit C_SHIFT (drop_bit 7 (sub_cout (A m) p (A m - p)) AND 1) OR
      push_bit H_SHIFT (drop_bit 3 (sub_cout (A m) p (A m - p)) AND 1) OR
      szp_flags (A m - p)) XOR H_FLAG"
  "A (finish_sub p t m) = A m - p"
  by (simp_all add: finish_sub_def Let_def tick_def sub_cout_def)

lemma F_finish_cmp:
  "F (finish_cmp p t m) =
     (push_bit C_SHIFT (drop_bit 7 (sub_cout (A m) p (A m - p)) AND 1) OR
      push_bit H_SHIFT (drop_bit 3 (sub_cout (A m) p (A m - p)) AND 1) OR
      szp_flags (A m - p)) XOR H_FLAG"
  "A (finish_cmp p t m) = A m"
  by (simp_all add: finish_cmp_def Let_def tick_def sub_cout_def)

lemma F_finish_sbb:
  "F (finish_sbb p t m) =
     (push_bit C_SHIFT (drop_bit 7 (sub_cout (A m) p (A m - p - carry_in (F m))) AND 1) OR
      push_bit H_SHIFT (drop_bit 3 (sub_cout (A m) p (A m - p - carry_in (F m))) AND 1) OR
      szp_flags (A m - p - carry_in (F m))) XOR H_FLAG"
  "A (finish_sbb p t m) = A m - p - carry_in (F m)"
  unfolding finish_sbb_def carry_in_code
  by (simp_all add: Let_def tick_def sub_cout_def)

lemma finish_sub_family:
  assumes "A m1 = A m"
  shows "sub_family p 0 True m (finish_sub p t m1)"
  unfolding sub_family_def Let_def F_finish_sub flags_assembled assms
  by simp

lemma finish_cmp_family:
  assumes "A m1 = A m"
  shows "sub_family p 0 False m (finish_cmp p t m1)"
  unfolding sub_family_def Let_def F_finish_cmp flags_assembled assms
  by simp

lemma finish_sbb_family:
  assumes "A m1 = A m" and "F m1 = F m"
  shows "sub_family p (carry_in (F m)) True m (finish_sbb p t m1)"
  unfolding sub_family_def Let_def F_finish_sbb flags_assembled assms
  by simp

text \<open>The short arms of SUB A and CMP A give what the general tail would give.\<close>

lemma sub_a_family:
  "sub_family (A m) 0 True m (tick t (m\<lparr>F := Z_FLAG OR H_FLAG OR P_FLAG, A := 0\<rparr>))"
  "sub_family (A m) 0 False m (tick t (m\<lparr>F := Z_FLAG OR H_FLAG OR P_FLAG\<rparr>))"
  by (simp_all add: sub_family_def sub_cout_def tick_def szp_flags_0 flag_set_bit)
     (simp_all add: flag_defs)

text \<open>
  C1: for every accumulator value and operand, the instructions of the subtraction
  family compute \<open>r = a - b\<close> modulo 256, less the carry flag for SBB and SBI; with
  \<open>cout = (NOT a AND b) OR ((NOT a OR b) AND r)\<close> they set C to bit 7 of \<open>cout\<close> and H to
  the inverse of its bit 3, take S, Z and P from \<open>szp_flags r\<close>, and SUB, SUI, SBB and SBI
  store \<open>r\<close> in A while CMP and CPI leave A as it was. The operand is a register, the
  byte at the address HL, or the byte after the opcode.
\<close>

theorem subtraction_family:
  "sub_family (B m) 0 True m (exec dev 0x90 m) \<and>
   sub_family (C m) 0 True m (exec dev 0x91 m) \<and>
   sub_family (D m) 0 True m (exec dev 0x92 m) \<and>
   sub_family (E m) 0 True m (exec dev 0x93 m) \<and>
   sub_family (H m) 0 True m (exec dev 0x94 m) \<and>
   sub_family (L m) 0 True m (exec dev 0x95 m) \<and>
   sub_family (memrdr m (rp (H m) (L m))) 0 True m (exec dev 0x96 m) \<and>
   sub_family (A m) 0 True m (exec dev 0x97 m) \<and>
   sub_family (memrdr m (PC8 m)) 0 True m (exec dev 0xd6 m) \<and>
   sub_family (B m) (carry_in (F m)) True m (exec dev 0x98 m) \<and>
   sub_family (C m) (carry_in (F m)) True m (exec dev 0x99 m) \<and>
   sub_family (D m) (carry_in (F m)) True m (exec dev 0x9a m) \<and>
   sub_family (E m) (carry_in (F m)) True m (exec dev 0x9b m) \<and>
   sub_family (H m) (carry_in (F m)) True m (exec dev 0x9c m) \<and>
   sub_family (L m) (carry_in (F m)) True m (exec dev 0x9d m) \<and>
   sub_family (memrdr m (rp (H m) (L m))) (carry_in (F m)) True m (exec dev 0x9e m) \<and>
   sub_family (A m) (carry_in (F m)) True m (exec dev 0x9f m) \<and>
   sub_family (memrdr m (PC8 m)) (carry_in (F m)) True m (exec dev 0xde m) \<and>
   sub_family (B m) 0 False m (exec dev 0xb8 m) \<and>
   sub_family (C m) 0 False m (exec dev 0xb9 m) \<and>
   sub_family (D m) 0 False m (exec dev 0xba m) \<and>
   sub_family (E m) 0 False m (exec dev 0xbb m) \<and>
   sub_family (H m) 0 False m (exec dev 0xbc m) \<and>
   sub_family (L m) 0 False m (exec dev 0xbd m) \<and>
   sub_family (memrdr m (rp (H m) (L m))) 0 False m (exec dev 0xbe m) \<and>
   sub_family (A m) 0 False m (exec dev 0xbf m) \<and>
   sub_family (memrdr m (PC8 m)) 0 False m (exec dev 0xfe m)"
  by (simp add: exec_def finish_sub_family finish_cmp_family finish_sbb_family sub_a_family)

subsection \<open>Addition\<close>

lemma F_finish_add:
  "F (finish_add p t m) =
     push_bit C_SHIFT (drop_bit 7 (add_cout (A m) p (A m + p)) AND 1) OR
     push_bit H_SHIFT (drop_bit 3 (add_cout (A m) p (A m + p)) AND 1) OR
     szp_flags (A m + p)"
  "A (finish_add p t m) = A m + p"
  by (simp_all add: finish_add_def Let_def tick_def add_cout_def)

lemma finish_add_result:
  assumes "A m1 = a"
  shows "add_result a p (finish_add p t m1)"
  unfolding add_result_def Let_def F_finish_add flags_assembled assms carry_out_add
  by (simp add: unat_word_ariths)

text \<open>
  C5: for all bytes \<open>a\<close> and \<open>b\<close>, MVI A,\<open>a\<close> followed by an ADD of the operand \<open>b\<close>
  (a register, the byte at the address HL, or an immediate byte) leaves
  \<open>A = (a + b) mod 256\<close>, sets C iff \<open>a + b \<ge> 256\<close>, which is bit 7 of
  \<open>cout = (a AND b) OR ((a OR b) AND NOT r)\<close>, sets H to bit 3 of \<open>cout\<close>, and takes S, Z
  and P from \<open>szp_flags\<close> of the result. Here \<open>a\<close> is the byte after the MVI opcode and
  \<open>m1\<close> the machine after the MVI.
\<close>

theorem mvi_then_add:
  "(let a = memrdr m (PC8 m); m1 = exec dev 0x3e m in
      A m1 = a \<and>
      add_result a (B m1) (exec dev 0x80 m1) \<and>
      add_result a (C m1) (exec dev 0x81 m1) \<and>
      add_result a (D m1) (exec dev 0x82 m1) \<and>
      add_result a (E m1) (exec dev 0x83 m1) \<and>
      add_result a (H m1) (exec dev 0x84 m1) \<and>
      add_result a (L m1) (exec dev 0x85 m1) \<and>
      add_result a (memrdr m1 (rp (H m1) (L m1))) (exec dev 0x86 m1) \<and>
      add_result a a (exec dev 0x87 m1) \<and>
      add_result a (memrdr m1 (PC8 m1)) (exec dev 0xc6 m1))"
  by (simp add: exec_def Let_def finish_add_result tick_def memrdr_def)

subsection \<open>Running a program\<close>

lemma cpu_8080_continue:
  "State (step dev m) = Running \<Longrightarrow> cpu_8080 dev m = cpu_8080 dev (step dev m)"
  by (subst cpu_8080.simps) (simp add: Let_def)

lemma cpu_8080_stop:
  "State (step dev m) \<noteq> Running \<Longrightarrow> cpu_8080 dev m = Some (step dev m)"
  by (subst cpu_8080.simps) (simp add: Let_def)

subsection \<open>Initialisation\<close>

lemma init_cpu_fields:
  "PC8 (fst (init_cpu random g cs)) = 0"
  "SP8 (fst (init_cpu random g cs)) = word_of_int (draw_after random g [] 65535)"
  "A (fst (init_cpu random g cs)) = word_of_int (draw_after random g [65535] 255)"
  "B (fst (init_cpu random g cs)) = word_of_int (draw_after random g [65535, 255] 255)"
  "C (fst (init_cpu random g cs)) = word_of_int (draw_after random g [65535, 255, 255] 255)"
  "D (fst (init_cpu random g cs)) =
     word_of_int (draw_after random g [65535, 255, 255, 255] 255)"
  "E (fst (init_cpu random g cs)) =
     word_of_int (draw_after random g [65535, 255, 255, 255, 255] 255)"
  "H (fst (init_cpu random g cs)) =
     word_of_int (draw_after random g [65535, 255, 255, 255, 255, 255] 255)"
  "L (fst (init_cpu random g cs)) =
     word_of_int (draw_after random g [65535, 255, 255, 255, 255, 255, 255] 255)"
  "F (fst (init_cpu random g cs)) =
     word_of_int (draw_after random g [65535, 255, 255, 255, 255, 255, 255, 255] 255)"
  "snd (init_cpu random g cs) =
     rng_after random g [65535, 255, 255, 255, 255, 255, 255, 255, 255]"
  by (simp_all add: init_cpu_def split_def Let_def draw_after_def)

lemma init_cpu_frame:
  "IFF (fst (init_cpu random g cs)) = IFF cs"
  "State (fst (init_cpu random g m)) = State m"
  "tstates (fst (init_cpu random g m)) = tstates m"
  "mem (fst (init_cpu random g m)) = mem m"
  "iodev (fst (init_cpu random g m)) = iodev m"
  by (simp_all add: init_cpu_def split_def Let_def)

lemma lcg_draws:
  "draw_after lcg_random 2 [] 65535 = 2"
  "draw_after lcg_random 2 [65535, 255, 255, 255, 255, 255, 255, 255] 255 = 0x2e"
  by (simp_all add: draw_after_def lcg_random_def)

lemma reset_with_start:
  "PC8 (reset_with prog) = 0" "State (reset_with prog) = Running"
  "tstates (reset_with prog) = 0" "mem (reset_with prog) = program_at_0 prog"
  "IFF (reset_with prog) = 0" "F (reset_with prog) = 0x2e" "SP8 (reset_with prog) = 2"
  by (simp_all add: reset_with_def init_cpu_fields init_cpu_frame lcg_draws power_on_def)


subsection \<open>Decimal adjust\<close>

lemma daa_general:
  "(let a = A m; c = flag_set C_FLAG (F m); h = flag_set H_FLAG (F m);
        p = daa_adjust a c h; r = a + p; cout = add_cout a p r;
        m' = exec dev 0x27 m
    in A m' = r \<and> (flag_set H_FLAG (F m') = bit cout 3) \<and>
       F m' AND SZP_FLAGS = szp_flags r \<and>
       (flag_set C_FLAG (F m') = (0x99 < a \<or> c)))"
proof -
  define p where "p = daa_adjust (A m) (flag_set C_FLAG (F m)) (flag_set H_FLAG (F m))"
  have Fd: "F (exec dev 0x27 m) =
      push_bit C_SHIFT (of_bool (0x99 < A m)) OR (F m AND C_FLAG) OR
      push_bit H_SHIFT (drop_bit 3 (add_cout (A m) p (A m + p)) AND 1) OR
      szp_flags (A m + p)"
    by (auto simp add: exec_def Let_def tick_def add_cout_def p_def daa_adjust_def nz_flag
        flag_set_bit)
  have Ad: "A (exec dev 0x27 m) = A m + p"
    by (auto simp add: exec_def Let_def tick_def add_cout_def p_def daa_adjust_def nz_flag
        flag_set_bit)
  show ?thesis
    unfolding Let_def p_def [symmetric] Fd Ad flags_assembled_daa
    by simp
qed

lemma run_daa_program:
  assumes "PC8 m = 0" and "State m = Running"
    and "map (mem m) [0, 1, 2, 3, 4, 5] = [0x3e, 0x15, 0xc6, 0x27, 0x27, 0x76]"
  shows "cpu_8080 dev m =
    Some (m\<lparr>A := 0x42, F := H_FLAG OR P_FLAG, PC8 := 6, State := Halted,
            tstates := tstates m + 25\<rparr>)"
proof -
  let ?m1 = "m\<lparr>A := 0x15, PC8 := 2, tstates := tstates m + 7\<rparr>"
  let ?m2 = "m\<lparr>A := 0x3c, F := P_FLAG, PC8 := 4, tstates := tstates m + 14\<rparr>"
  let ?m3 = "m\<lparr>A := 0x42, F := H_FLAG OR P_FLAG, PC8 := 5, tstates := tstates m + 18\<rparr>"
  let ?m4 = "m\<lparr>A := 0x42, F := H_FLAG OR P_FLAG, PC8 := 6, State := Halted,
      tstates := tstates m + 25\<rparr>"
  have s1: "step dev m = ?m1"
    using assms by (simp add: step_def exec_def memrdr_def tick_def)
  have s2: "step dev ?m1 = ?m2"
    using assms
    by (simp add: step_def exec_def memrdr_def tick_def finish_add_def Let_def szp_flags_eq
        szp_spec_def popcount_def flag_defs)
  have s3: "step dev ?m2 = ?m3"
    using assms
    by (simp add: step_def exec_def memrdr_def tick_def Let_def nz_def szp_flags_eq
        szp_spec_def popcount_def flag_defs)
  have s4: "step dev ?m3 = ?m4"
    using assms by (simp add: step_def exec_def memrdr_def tick_def)
  have "cpu_8080 dev m = cpu_8080 dev ?m1"
    using assms s1 by (simp add: cpu_8080_continue)
  also have "\<dots> = cpu_8080 dev ?m2"
    using assms s2 by (simp add: cpu_8080_continue)
  also have "\<dots> = cpu_8080 dev ?m3"
    using assms s3 by (simp add: cpu_8080_continue)
  also have "\<dots> = Some ?m4"
    using s4 by (simp add: cpu_8080_stop)
  finally show ?thesis .
qed

lemma flags_of_HP:
  "\<not> flag_set C_FLAG (H_FLAG OR P_FLAG)" "flag_set H_FLAG (H_FLAG OR P_FLAG)"
  "\<not> flag_set S_FLAG (H_FLAG OR P_FLAG)" "\<not> flag_set Z_FLAG (H_FLAG OR P_FLAG)"
  "flag_set P_FLAG (H_FLAG OR P_FLAG)"
  "\<not> flag_set C_FLAG P_FLAG" "\<not> flag_set H_FLAG P_FLAG"
  "\<not> flag_set S_FLAG P_FLAG" "\<not> flag_set Z_FLAG P_FLAG"
  "flag_set P_FLAG P_FLAG"
  by (simp_all add: flag_set_def flag_defs)

lemma init_cpu_power_on:
  "PC8 (fst (init_cpu random g (power_on ram dev0))) = 0"
  "State (fst (init_cpu random g (power_on ram dev0))) = Running"
  "tstates (fst (init_cpu random g (power_on ram dev0))) = 0"
  "mem (fst (init_cpu random g (power_on ram dev0))) = ram"
  by (simp_all add: init_cpu_fields init_cpu_frame power_on_def)

text \<open>
  C2: from the accumulator \<open>a\<close> and the flags C and H before it, DAA builds the
  adjustment \<open>p\<close> with \<open>0x06\<close> when the low nibble of \<open>a\<close> exceeds 9 or H is set, and
  \<open>0x60\<close> when \<open>a > 0x99\<close> or C is set; it sets A to \<open>a + p\<close> modulo 256, H to bit 3 of
  the carry-outs of that addition, S, Z and P from \<open>szp_flags\<close> of the result, and C to
  \<open>a > 0x99\<close> or the old C. And the machine after initialisation, with the bytes
  3E 15 C6 27 27 76 at address 0, runs until HLT and stops with A = \<open>0x42\<close>, C = 0,
  H = 1, S = 0, Z = 0, P = 1.
\<close>

theorem daa_adjusts:
  "(let a = A m; c = flag_set C_FLAG (F m); h = flag_set H_FLAG (F m);
        p = daa_adjust a c h; r = a + p; cout = add_cout a p r;
        m' = exec dev 0x27 m
    in A m' = r \<and> (flag_set H_FLAG (F m') = bit cout 3) \<and>
       F m' AND SZP_FLAGS = szp_flags r \<and>
       (flag_set C_FLAG (F m') = (0x99 < a \<or> c))) \<and>
   (map ram [0, 1, 2, 3, 4, 5] = [0x3e, 0x15, 0xc6, 0x27, 0x27, 0x76] \<longrightarrow>
    (\<exists>m'. cpu_8080 dev (fst (init_cpu random g (power_on ram dev0))) = Some m' \<and>
       State m' = Halted \<and> A m' = 0x42 \<and>
       \<not> flag_set C_FLAG (F m') \<and> flag_set H_FLAG (F m') \<and> \<not> flag_set S_FLAG (F m') \<and>
       \<not> flag_set Z_FLAG (F m') \<and> flag_set P_FLAG (F m')))"
proof (intro conjI impI)
  show "let a = A m; c = flag_set C_FLAG (F m); h = flag_set H_FLAG (F m);
        p = daa_adjust a c h; r = a + p; cout = add_cout a p r;
        m' = exec dev 0x27 m
    in A m' = r \<and> (flag_set H_FLAG (F m') = bit cout 3) \<and>
       F m' AND SZP_FLAGS = szp_flags r \<and>
       (flag_set C_FLAG (F m') = (0x99 < a \<or> c))"
    by (rule daa_general)
next
  let ?m0 = "fst (init_cpu random g (power_on ram dev0))"
  assume "map ram [0, 1, 2, 3, 4, 5] = [0x3e, 0x15, 0xc6, 0x27, 0x27, 0x76]"
  then have "cpu_8080 dev ?m0 =
    Some (?m0\<lparr>A := 0x42, F := H_FLAG OR P_FLAG, PC8 := 6, State := Halted,
            tstates := tstates ?m0 + 25\<rparr>)"
    by (intro run_daa_program) (simp_all add: init_cpu_power_on)
  then show "\<exists>m'. cpu_8080 dev ?m0 = Some m' \<and> State m' = Halted \<and> A m' = 0x42 \<and>
       \<not> flag_set C_FLAG (F m') \<and> flag_set H_FLAG (F m') \<and> \<not> flag_set S_FLAG (F m') \<and>
       \<not> flag_set Z_FLAG (F m') \<and> flag_set P_FLAG (F m')"
    by (simp add: flags_of_HP)
qed

theorem daa_adjusts_witness:
  "map (program_at_0 [0x3e, 0x15, 0xc6, 0x27, 0x27, 0x76]) [0, 1, 2, 3, 4, 5] =
     [0x3e, 0x15, 0xc6, 0x27, 0x27, 0x76] \<and>
   (\<exists>m'. cpu_8080 nodev (reset_with [0x3e, 0x15, 0xc6, 0x27, 0x27, 0x76]) = Some m' \<and>
      State m' = Halted \<and> A m' = 0x42 \<and>
      \<not> flag_set C_FLAG (F m') \<and> flag_set H_FLAG (F m') \<and> \<not> flag_set S_FLAG (F m') \<and>
      \<not> flag_set Z_FLAG (F m') \<and> flag_set P_FLAG (F m'))"
  using daa_adjusts [where ram = "program_at_0 [0x3e, 0x15, 0xc6, 0x27, 0x27, 0x76]"
      and dev = nodev and random = lcg_random and g = 2 and ?dev0.0 = "()"]
  by (simp add: reset_with_def program_at_0_def)

subsection \<open>The immediate add program\<close>

lemma run_add_program:
  assumes "PC8 m = 0" and "State m = Running"
    and "map (mem m) [0, 1, 2, 3, 4] = [0x3e, 0x02, 0xc6, 0x03, 0x76]"
  shows "cpu_8080 dev m =
    Some (m\<lparr>A := 0x05, F := P_FLAG, PC8 := 5, State := Halted, tstates := tstates m + 21\<rparr>)"
proof -
  let ?m1 = "m\<lparr>A := 0x02, PC8 := 2, tstates := tstates m + 7\<rparr>"
  let ?m2 = "m\<lparr>A := 0x05, F := P_FLAG, PC8 := 4, tstates := tstates m + 14\<rparr>"
  let ?m3 = "m\<lparr>A := 0x05, F := P_FLAG, PC8 := 5, State := Halted,
      tstates := tstates m + 21\<rparr>"
  have s1: "step dev m = ?m1"
    using assms by (simp add: step_def exec_def memrdr_def tick_def)
  have s2: "step dev ?m1 = ?m2"
    using assms
    by (simp add: step_def exec_def memrdr_def tick_def finish_add_def Let_def szp_flags_eq
        szp_spec_def popcount_def flag_defs)
  have s3: "step dev ?m2 = ?m3"
    using assms by (simp add: step_def exec_def memrdr_def tick_def)
  have "cpu_8080 dev m = cpu_8080 dev ?m1"
    using assms s1 by (simp add: cpu_8080_continue)
  also have "\<dots> = cpu_8080 dev ?m2"
    using assms s2 by (simp add: cpu_8080_continue)
  also have "\<dots> = Some ?m3"
    using s3 by (simp add: cpu_8080_stop)
  finally show ?thesis .
qed

text \<open>
  C9 (amended): the machine after initialisation, with the bytes 3E 02 C6 03 76 at
  address 0, runs until HLT and stops with A = \<open>0x05\<close>, Z = 0, S = 0, P = 1, C = 0,
  H = 0, PC = \<open>0x0005\<close> and 21 T-states in all: 7 for each of the three instructions.
\<close>

theorem immediate_add_program:
  assumes "map ram [0, 1, 2, 3, 4] = [0x3e, 0x02, 0xc6, 0x03, 0x76]"
  shows "\<exists>m'. cpu_8080 dev (fst (init_cpu random g (power_on ram dev0))) = Some m' \<and>
     State m' = Halted \<and> A m' = 0x05 \<and>
     \<not> flag_set Z_FLAG (F m') \<and> \<not> flag_set S_FLAG (F m') \<and> flag_set P_FLAG (F m') \<and>
     \<not> flag_set C_FLAG (F m') \<and> \<not> flag_set H_FLAG (F m') \<and>
     PC8 m' = 0x0005 \<and> tstates m' = 21"
proof -
  let ?m0 = "fst (init_cpu random g (power_on ram dev0))"
  have "cpu_8080 dev ?m0 =
    Some (?m0\<lparr>A := 0x05, F := P_FLAG, PC8 := 5, State := Halted,
            tstates := tstates ?m0 + 21\<rparr>)"
    using assms by (intro run_add_program) (simp_all add: init_cpu_power_on)
  then show ?thesis
    by (simp add: flags_of_HP init_cpu_power_on)
qed

theorem immediate_add_program_witness:
  "map (program_at_0 [0x3e, 0x02, 0xc6, 0x03, 0x76]) [0, 1, 2, 3, 4] =
     [0x3e, 0x02, 0xc6, 0x03, 0x76] \<and>
   (\<exists>m'. cpu_8080 nodev (reset_with [0x3e, 0x02, 0xc6, 0x03, 0x76]) = Some m' \<and>
      State m' = Halted \<and> A m' = 0x05 \<and>
      \<not> flag_set Z_FLAG (F m') \<and> \<not> flag_set S_FLAG (F m') \<and> flag_set P_FLAG (F m') \<and>
      \<not> flag_set C_FLAG (F m') \<and> \<not> flag_set H_FLAG (F m') \<and>
      PC8 m' = 0x0005 \<and> tstates m' = 21)"
  using immediate_add_program [of "program_at_0 [0x3e, 0x02, 0xc6, 0x03, 0x76]" nodev
      lcg_random 2 "()"]
  by (simp add: reset_with_def program_at_0_def)

text \<open>
  C9 as stated fails: the run from reset with the sample collaborators ends with 21
  T-states, not 28.
\<close>

theorem immediate_add_tstates_counterexample:
  "map_option tstates (cpu_8080 nodev (reset_with [0x3e, 0x02, 0xc6, 0x03, 0x76])) = Some 21 \<and>
   map_option tstates (cpu_8080 nodev (reset_with [0x3e, 0x02, 0xc6, 0x03, 0x76])) \<noteq> Some 28"
  using run_add_program [of "reset_with [0x3e, 0x02, 0xc6, 0x03, 0x76]" nodev]
  by (simp add: reset_with_start program_at_0_def)

subsection \<open>Stack instructions\<close>

text \<open>
  C10 (amended): XTHL swaps the byte at the address SP with L and the byte at SP + 1
  with H, changes no other byte of the memory, leaves the flags and SP as they were, and
  takes 18 T-states: 14 beyond the 4 of the opcode fetch.
\<close>

theorem xthl_swaps:
  "(let m' = exec dev 0xe3 m in
     L m' = memrdr m (SP8 m) \<and> H m' = memrdr m (SP8 m + 1) \<and>
     memrdr m' (SP8 m) = L m \<and> memrdr m' (SP8 m + 1) = H m \<and>
     mem m' = (mem m)(SP8 m := L m, SP8 m + 1 := H m) \<and>
     F m' = F m \<and> SP8 m' = SP8 m \<and> tstates m' = tstates m + 18)"
  by (simp add: exec_def Let_def tick_def memwrt_def memrdr_def)

text \<open>
  C10 as stated fails: XTHL as the first instruction after reset brings
  \<^verbatim>\<open>tstates\<close> from 0 to 18, not to 14.
\<close>

theorem xthl_tstates_counterexample:
  "tstates (reset_with [0xe3]) = 0 \<and>
   tstates (step nodev (reset_with [0xe3])) = 18 \<and>
   tstates (step nodev (reset_with [0xe3])) \<noteq> 14"
  by (simp add: step_def exec_def Let_def tick_def memwrt_def memrdr_def reset_with_start
      program_at_0_def)

text \<open>
  C7: on every machine, PUSH of BC, DE or HL followed by the POP of the same pair
  gives the pair and SP their values from before; the push leaves SP two lower and
  writes the high register at SP - 1 and the low one at SP - 2, all modulo \<open>2^16\<close>.
  PUSH PSW followed by POP PSW gives A and SP their values from before and F its value
  with X and Y cleared and N set.
\<close>

theorem push_pop_round_trip:
  "(let m1 = exec dev 0xc5 m; m2 = exec dev 0xc1 m1 in
      B m2 = B m \<and> C m2 = C m \<and> SP8 m2 = SP8 m \<and> SP8 m1 = SP8 m - 2 \<and>
      memrdr m1 (SP8 m - 1) = B m \<and> memrdr m1 (SP8 m - 2) = C m) \<and>
   (let m1 = exec dev 0xd5 m; m2 = exec dev 0xd1 m1 in
      D m2 = D m \<and> E m2 = E m \<and> SP8 m2 = SP8 m \<and> SP8 m1 = SP8 m - 2 \<and>
      memrdr m1 (SP8 m - 1) = D m \<and> memrdr m1 (SP8 m - 2) = E m) \<and>
   (let m1 = exec dev 0xe5 m; m2 = exec dev 0xe1 m1 in
      H m2 = H m \<and> L m2 = L m \<and> SP8 m2 = SP8 m \<and> SP8 m1 = SP8 m - 2 \<and>
      memrdr m1 (SP8 m - 1) = H m \<and> memrdr m1 (SP8 m - 2) = L m) \<and>
   (let m1 = exec dev 0xf5 m; m2 = exec dev 0xf1 m1 in
      A m2 = A m \<and> F m2 = (F m AND NOT (Y_FLAG OR X_FLAG)) OR N_FLAG \<and>
      SP8 m2 = SP8 m \<and> SP8 m1 = SP8 m - 2 \<and>
      memrdr m1 (SP8 m - 1) = A m \<and>
      memrdr m1 (SP8 m - 2) = (F m AND NOT (Y_FLAG OR X_FLAG)) OR N_FLAG)"
  by (simp add: exec_def Let_def tick_def memwrt_def memrdr_def)

subsection \<open>The X and Y bits of the flag byte\<close>

lemma xy_szp: "xy_clear (szp_flags v)"
  by (simp add: xy_clear_def szp_flags_eq szp_spec_def flag_defs)

lemma xy_or: "xy_clear a \<Longrightarrow> xy_clear b \<Longrightarrow> xy_clear (a OR b)"
  by (simp add: xy_clear_def bit.conj_disj_distrib2)

lemma xy_xor: "xy_clear a \<Longrightarrow> xy_clear b \<Longrightarrow> xy_clear (a XOR b)"
  by (simp add: xy_clear_def bit.conj_xor_distrib2)

lemma xy_and2: "xy_clear b \<Longrightarrow> xy_clear (a AND b)"
  by (simp add: xy_clear_def and.assoc)

lemma xy_and: "xy_clear a \<Longrightarrow> xy_clear (a AND b)"
  using xy_and2 [of a b] by (simp add: and.commute)

lemma xy_flags:
  "xy_clear C_FLAG" "xy_clear H_FLAG" "xy_clear Z_FLAG" "xy_clear P_FLAG" "xy_clear 0"
  "xy_clear (2 ^ C_SHIFT)" "xy_clear (2 ^ H_SHIFT)" "xy_clear (of_bool b)"
  by (simp_all add: xy_clear_def flag_defs)

lemma xy_bits:
  "xy_clear (push_bit C_SHIFT (x AND 1))" "xy_clear (push_bit C_SHIFT (of_bool b))"
  "xy_clear (push_bit H_SHIFT (x AND 1))"
  by (simp_all add: xy_clear_def flag_defs and_one_eq mod_2_eq_odd)

lemmas xy_intros = xy_szp xy_or xy_xor xy_and xy_and2 xy_flags xy_bits

lemma F_tick: "F (tick t m) = F m"
  by (simp add: tick_def)

lemma F_memwrt: "F (memwrt a v m) = F m"
  by (simp add: memwrt_def)

lemma xy_finish:
  "xy_clear (F m) \<Longrightarrow> xy_clear (F (finish_inr p res t m))"
  "xy_clear (F m) \<Longrightarrow> xy_clear (F (finish_dcr p res t m))"
  "xy_clear (F m) \<Longrightarrow> xy_clear (F (finish_dad cout addr t m))"
  "xy_clear (F (finish_add p t m))"
  "xy_clear (F (finish_adc p t m))"
  "xy_clear (F (finish_sub p t m))"
  "xy_clear (F (finish_sbb p t m))"
  "xy_clear (F (finish_ana p t m))"
  "xy_clear (F (finish_cmp p t m))"
  "F (finish_ret t m) = F m"
  "F (finish_retc c t m) = F m"
  "F (finish_jmpc c t m) = F m"
  "F (finish_call addr t m) = F m"
  "F (finish_callc c t m) = F m"
  by (simp_all add: finish_defs Let_def F_tick F_memwrt xy_intros)

lemma xy_if: "xy_clear (F a) \<Longrightarrow> xy_clear (F b) \<Longrightarrow> xy_clear (F (if c then a else b))"
  by simp

lemma exec_keeps_xy:
  assumes "op \<noteq> 0xf1" and "xy_clear (F m)"
  shows "xy_clear (F (exec dev op m))"
  unfolding exec_def
  apply (simp only: assms(1) if_False)
  apply (intro xy_if)
  using assms(2)
  apply (simp_all add: Let_def F_tick F_memwrt xy_intros xy_finish split: prod.split)
  done

lemma psw_image:
  "xy_clear ((f AND NOT (Y_FLAG OR X_FLAG)) OR N_FLAG)"
  "flag_set N_FLAG ((f AND NOT (Y_FLAG OR X_FLAG)) OR N_FLAG)"
  by (simp_all add: xy_clear_def flag_set_def flag_defs bit.conj_disj_distrib2 and.assoc)

lemma after_xra_a:
  "step nodev (reset_with [0xaf, 0xf1, 0xff, 0xff]) =
     (reset_with [0xaf, 0xf1, 0xff, 0xff])
       \<lparr>A := 0, F := Z_FLAG OR P_FLAG, PC8 := 1, tstates := 4\<rparr>"
  by (simp add: step_def exec_def memrdr_def tick_def reset_with_start program_at_0_def)

text \<open>
  C3 (amended): every opcode other than POP PSW (\<open>0xF1\<close>) keeps the X and Y bits of F
  at 0 when they were 0 before. POP PSW loads F with the byte at the address SP as it
  is, without a mask. PUSH PSW writes a flag byte with X and Y cleared and N set.
  \<^verbatim>\<open>init_cpu\<close> loads F with the number it draws, without a mask.
\<close>

theorem xy_bits_of_F:
  "(op \<noteq> 0xf1 \<and> xy_clear (F m) \<longrightarrow> xy_clear (F (exec dev op m))) \<and>
   F (exec dev 0xf1 m) = memrdr m (SP8 m) \<and>
   xy_clear (memrdr (exec dev 0xf5 m) (SP8 m - 2)) \<and>
   flag_set N_FLAG (memrdr (exec dev 0xf5 m) (SP8 m - 2)) \<and>
   F (fst (init_cpu random g cs)) =
     word_of_int (draw_after random g [65535, 255, 255, 255, 255, 255, 255, 255] 255)"
proof (intro conjI impI)
  assume "op \<noteq> 0xf1 \<and> xy_clear (F m)"
  then show "xy_clear (F (exec dev op m))"
    by (simp add: exec_keeps_xy)
next
  show "F (exec dev 0xf1 m) = memrdr m (SP8 m)"
    by (simp add: exec_def tick_def)
next
  have "memrdr (exec dev 0xf5 m) (SP8 m - 2) = (F m AND NOT (Y_FLAG OR X_FLAG)) OR N_FLAG"
    by (simp add: exec_def Let_def tick_def memwrt_def memrdr_def)
  then show "xy_clear (memrdr (exec dev 0xf5 m) (SP8 m - 2))"
    and "flag_set N_FLAG (memrdr (exec dev 0xf5 m) (SP8 m - 2))"
    by (simp_all only: psw_image)
next
  show "F (fst (init_cpu random g cs)) =
     word_of_int (draw_after random g [65535, 255, 255, 255, 255, 255, 255, 255] 255)"
    by (rule init_cpu_fields)
qed

theorem xy_bits_of_F_witness:
  "(0x3c :: byte) \<noteq> 0xf1 \<and>
   xy_clear (F (step nodev (reset_with [0xaf, 0xf1, 0xff, 0xff]))) \<and>
   xy_clear (F (exec nodev 0x3c (step nodev (reset_with [0xaf, 0xf1, 0xff, 0xff]))))"
  using xy_bits_of_F [of "0x3c" "step nodev (reset_with [0xaf, 0xf1, 0xff, 0xff])" nodev,
      THEN conjunct1]
  by (simp add: after_xra_a xy_flags xy_or)

text \<open>
  C3 as stated fails: after reset with the sample generator F has X and Y set; XRA A
  clears them; POP PSW then loads \<open>0xff\<close> from the stack and sets them again.
\<close>

theorem pop_psw_counterexample:
  "\<not> xy_clear (F (reset_with [0xaf, 0xf1, 0xff, 0xff])) \<and>
   xy_clear (F (step nodev (reset_with [0xaf, 0xf1, 0xff, 0xff]))) \<and>
   \<not> xy_clear (F (step nodev (step nodev (reset_with [0xaf, 0xf1, 0xff, 0xff]))))"
  by (simp add: after_xra_a step_def exec_def memrdr_def tick_def reset_with_start
      program_at_0_def xy_clear_def flag_defs)

end
